theory Spec2Isabelle
  imports Complex_Main
begin

section \<open>The heartbeat loop of light\_runner.py\<close>

text \<open>
  The two module-level \<^verbatim>\<open>threading.Event\<close> objects \<^verbatim>\<open>stop_event\<close> and
  \<^verbatim>\<open>heartbeat_event\<close> are a pair of booleans.
\<close>

record flags =
  stop_event :: bool
  heartbeat_event :: bool

text \<open>
  \<^verbatim>\<open>sigterm_handler\<close> (lines 39-41) and \<^verbatim>\<open>alarm_handler\<close> (lines 44-45), when
  every call of \<^verbatim>\<open>set()\<close> in them returns.
\<close>

definition sigterm_handler :: "'a flags_scheme \<Rightarrow> 'a flags_scheme" where
  "sigterm_handler g = g\<lparr>stop_event := True, heartbeat_event := True\<rparr>"

definition alarm_handler :: "'a flags_scheme \<Rightarrow> 'a flags_scheme" where
  "alarm_handler g = g\<lparr>heartbeat_event := True\<rparr>"

text \<open>
  \<^verbatim>\<open>Event.set()\<close> takes the lock of the event, assigns the flag and releases the
  lock. The lock is not reentrant, and Python runs the handlers in the main thread,
  between two of its instructions. A handler that starts while the main thread is
  inside a method that holds the lock the handler asks for therefore blocks in its
  \<^verbatim>\<open>set()\<close> and never returns, and what it interrupted never goes on. The holder is
  \<^verbatim>\<open>clear()\<close> or \<^verbatim>\<open>wait()\<close> of the loop (on \<^verbatim>\<open>heartbeat_event\<close>), or the
  \<^verbatim>\<open>set()\<close> of a handler that was interrupted in its turn.

  Of a handler that does not return, the number of flags it has assigned is kept.
  \<^verbatim>\<open>sigterm_handler\<close> has assigned none when it stopped in line 40 before the
  assignment, \<^verbatim>\<open>stop_event\<close> alone when it stopped later in line 40 or in line 41
  before the assignment (so when it blocks on the lock of \<^verbatim>\<open>heartbeat_event\<close>), and
  both when it stopped after that. \<^verbatim>\<open>alarm_handler\<close> has assigned none (so when it
  blocks on the lock) or \<^verbatim>\<open>heartbeat_event\<close>.
\<close>

definition sigterm_handler_upto :: "nat \<Rightarrow> 'a flags_scheme \<Rightarrow> 'a flags_scheme" where
  "sigterm_handler_upto n g =
     (if n = 0 then g
      else if n = 1 then g\<lparr>stop_event := True\<rparr>
      else g\<lparr>stop_event := True, heartbeat_event := True\<rparr>)"

definition alarm_handler_upto :: "nat \<Rightarrow> 'a flags_scheme \<Rightarrow> 'a flags_scheme" where
  "alarm_handler_upto n g = (if n = 0 then g else g\<lparr>heartbeat_event := True\<rparr>)"

text \<open>
  The signals for which \<^verbatim>\<open>main\<close> installs a handler: \<^verbatim>\<open>SIGINT\<close> and
  \<^verbatim>\<open>SIGTERM\<close> always (lines 425-429), \<^verbatim>\<open>SIGALRM\<close> only in the POSIX mode
  (line 492). In the fallback mode no handler for \<^verbatim>\<open>SIGALRM\<close> exists, so the
  fallback loop is fed termination signals only.
\<close>

datatype term_signal = SIGINT | SIGTERM

datatype posix_signal = TermReq term_signal | SIGALRM

definition on_term_signal :: "term_signal \<Rightarrow> 'a flags_scheme \<Rightarrow> 'a flags_scheme" where
  "on_term_signal s g = (case s of SIGINT \<Rightarrow> sigterm_handler g | SIGTERM \<Rightarrow> sigterm_handler g)"

definition on_posix_signal :: "posix_signal \<Rightarrow> 'a flags_scheme \<Rightarrow> 'a flags_scheme" where
  "on_posix_signal s g = (case s of TermReq t \<Rightarrow> on_term_signal t g | SIGALRM \<Rightarrow> alarm_handler g)"

text \<open>
  A handler that started for a signal and does not return, with the number of flags it
  has assigned.
\<close>

datatype 'sig stuck = Stuck 'sig nat

definition on_term_stuck :: "term_signal stuck \<Rightarrow> 'a flags_scheme \<Rightarrow> 'a flags_scheme" where
  "on_term_stuck k g =
     (case k of Stuck s n \<Rightarrow>
        (case s of SIGINT \<Rightarrow> sigterm_handler_upto n g | SIGTERM \<Rightarrow> sigterm_handler_upto n g))"

definition on_posix_stuck :: "posix_signal stuck \<Rightarrow> 'a flags_scheme \<Rightarrow> 'a flags_scheme" where
  "on_posix_stuck k g =
     (case k of Stuck s n \<Rightarrow>
        (case s of TermReq t \<Rightarrow> on_term_stuck (Stuck t n) g | SIGALRM \<Rightarrow> alarm_handler_upto n g))"

text \<open>
  \<^verbatim>\<open>args.interval\<close> is a float (\<^verbatim>\<open>type=float\<close>, line 398): a finite number, taken
  here as a rational, or one of the three values \<^verbatim>\<open>inf\<close>, \<^verbatim>\<open>-inf\<close> and
  \<^verbatim>\<open>nan\<close>, all of which \<^verbatim>\<open>float()\<close> parses.
\<close>

datatype seconds = Finite rat | PlusInfinity | MinusInfinity | NotANumber

text \<open>Python's \<^verbatim>\<open>interval > 0\<close>.\<close>

definition positive :: "seconds \<Rightarrow> bool" where
  "positive v = (case v of Finite x \<Rightarrow> 0 < x | PlusInfinity \<Rightarrow> True
                 | MinusInfinity \<Rightarrow> False | NotANumber \<Rightarrow> False)"

text \<open>
  The command-line values the loop reads (\<^verbatim>\<open>args.interval\<close>, \<^verbatim>\<open>args.message\<close>,
  \<^verbatim>\<open>args.silent\<close>, \<^verbatim>\<open>args.count\<close>).
\<close>

record args =
  interval :: seconds
  message :: string
  silent :: bool
  count :: int

text \<open>
  Two constants of the interpreter, not of the source, are taken as parameters: the
  largest number of seconds that \<^verbatim>\<open>signal.setitimer\<close> converts, and
  \<^verbatim>\<open>threading.TIMEOUT_MAX\<close>, the largest timeout a lock accepts.
\<close>

record platform =
  itimer_max :: rat
  timeout_max :: rat

text \<open>
  \<^verbatim>\<open>signal.setitimer(ITIMER_REAL, interval, interval)\<close> (line 493) raises for a
  negative number, for a number that is too large, for both infinities and for nan.
\<close>

definition setitimer_raises :: "platform \<Rightarrow> seconds \<Rightarrow> bool" where
  "setitimer_raises pl v = (case v of Finite x \<Rightarrow> x < 0 \<or> itimer_max pl < x
                            | PlusInfinity \<Rightarrow> True | MinusInfinity \<Rightarrow> True
                            | NotANumber \<Rightarrow> True)"

text \<open>
  \<^verbatim>\<open>heartbeat_event.wait(interval)\<close> (line 509), entered with the event unset, takes
  the branch \<^verbatim>\<open>if timeout > 0\<close> of \<^verbatim>\<open>Condition.wait\<close> and there raises
  \<^verbatim>\<open>OverflowError\<close> for a timeout that is too large; a timeout that is not
  positive (nan included) returns at once.
\<close>

definition wait_raises_overflow :: "platform \<Rightarrow> seconds \<Rightarrow> bool" where
  "wait_raises_overflow pl v = (case v of Finite x \<Rightarrow> 0 < x \<and> timeout_max pl < x
                                | PlusInfinity \<Rightarrow> True | MinusInfinity \<Rightarrow> False
                                | NotANumber \<Rightarrow> False)"

text \<open>
  One printed heartbeat line \<^verbatim>\<open>[now] message (heartbeat_count)\<close>, kept structured.
\<close>

record line =
  stamp :: string
  text_of :: string
  number :: int

text \<open>The state of the loop: the two events, \<^verbatim>\<open>heartbeat_count\<close> and what was printed.\<close>

record hb = flags +
  heartbeat_count :: int
  printed :: "line list"

text \<open>
  What the environment does in one iteration of the loop, in the order in which it
  happens:
  \<^item> \<open>during\<close>: the signals whose handlers run and return before the test
    \<^verbatim>\<open>if stop_event.is_set(): break\<close> in the body of the loop;
  \<^item> \<open>stuck\<close>: the handlers that start before this test and do not return, in the
    order in which they start. In the POSIX mode the main thread holds no lock of its
    own before the test, so the first of them is a handler that a second signal
    interrupted inside a \<^verbatim>\<open>set()\<close>, and the second blocks on the lock the first
    holds. In the fallback mode the first may also be one that starts inside
    \<^verbatim>\<open>wait()\<close> (before the lock is released for the sleep, or after it is taken
    again) or inside \<^verbatim>\<open>clear()\<close>, lines 509 and 510, and blocks at once;
  \<^item> \<open>late\<close>: the signals whose handlers run and return after the test and before
    the tick is counted;
  \<^item> \<open>late_stuck\<close>: the handlers that start after the test and do not return: in the
    POSIX mode one that starts inside \<^verbatim>\<open>clear()\<close>, line 499, and blocks at once;
    in both modes one that a second signal interrupted inside a \<^verbatim>\<open>set()\<close>, and
    that second one;
  \<^item> \<open>now\<close>: the clock reading used for the printed line.
  A signal handled after the tick is counted belongs to the next iteration.
\<close>

record 'sig wake =
  during :: "'sig list"
  stuck :: "'sig stuck list"
  late :: "'sig list"
  late_stuck :: "'sig stuck list"
  now :: string

text \<open>
  How a run over a finite schedule of wakes ends: the loop was left by one of its own
  tests (\<open>Exited\<close>); the loop is still blocked in its wait when the schedule is used up
  (\<open>Waiting\<close>); an exception reached \<^verbatim>\<open>except Exception\<close> at line 519 (\<open>Faulted\<close>);
  or the main thread is blocked inside a handler (\<open>Hung\<close>). A hung thread runs no
  further instruction of the loop: no tick is counted and no test of the loop is
  reached; the state of \<open>Hung\<close> has the flags that the handlers had assigned. (Should
  so many signals nest that the interpreter's recursion limit is hit, the
  \<^verbatim>\<open>RecursionError\<close> unwinds into line 519; the loop's tests are not reached then
  either.)
\<close>

datatype 'a outcome = Exited 'a | Waiting 'a | Faulted 'a | Hung 'a

fun final :: "'a outcome \<Rightarrow> 'a" where
  "final (Exited s) = s"
| "final (Waiting s) = s"
| "final (Faulted s) = s"
| "final (Hung s) = s"

fun is_exited :: "'a outcome \<Rightarrow> bool" where
  "is_exited (Exited s) = True"
| "is_exited (Waiting s) = False"
| "is_exited (Faulted s) = False"
| "is_exited (Hung s) = False"

text \<open>
  Lines 500-503 and 513-516: \<^verbatim>\<open>heartbeat_count += 1\<close>, then the print unless silent.
\<close>

definition count_tick :: "args \<Rightarrow> string \<Rightarrow> hb \<Rightarrow> hb" where
  "count_tick a t s =
     (let s1 = s\<lparr>heartbeat_count := heartbeat_count s + 1\<rparr>
      in if \<not> silent a
         then s1\<lparr>printed := printed s1 @
                  [\<lparr>stamp = t, text_of = message a, number = heartbeat_count s1\<rparr>]\<rparr>
         else s1)"

text \<open>Lines 504 and 517: \<^verbatim>\<open>args.count > 0 and heartbeat_count >= args.count\<close>.\<close>

definition limit_reached :: "args \<Rightarrow> hb \<Rightarrow> bool" where
  "limit_reached a s \<longleftrightarrow> count a > 0 \<and> heartbeat_count s \<ge> count a"

text \<open>
  Lines 494-505, the POSIX loop. \<^verbatim>\<open>signal.pause()\<close> returns only after a handler
  has run, so an iteration without any signal leaves the loop blocked. The only
  method of \<^verbatim>\<open>heartbeat_event\<close> that the loop itself calls under the lock is
  \<^verbatim>\<open>clear()\<close> at line 499 (\<^verbatim>\<open>is_set()\<close> takes no lock).
\<close>

fun posix_loop :: "args \<Rightarrow> posix_signal wake list \<Rightarrow> hb \<Rightarrow> hb outcome" where
  "posix_loop a [] s = (if stop_event s then Exited s else Waiting s)"
| "posix_loop a (w # ws) s =
     (if stop_event s then Exited s
      else
        let s1 = fold on_posix_signal (during w) s in
        if stuck w \<noteq> [] then Hung (fold on_posix_stuck (stuck w) s1)
        else if during w = [] then Waiting s
        else if stop_event s1 then Exited s1
        else
          let s2 = fold on_posix_signal (late w) s1 in
          if late_stuck w \<noteq> [] then Hung (fold on_posix_stuck (late_stuck w) s2)
          else if heartbeat_event s2 then
            let s3 = count_tick a (now w) (s2\<lparr>heartbeat_event := False\<rparr>) in
            if limit_reached a s3 then Exited s3 else posix_loop a ws s3
          else posix_loop a ws s2)"

text \<open>
  Lines 508-518, the fallback loop. \<^verbatim>\<open>heartbeat_event.wait(args.interval)\<close> raises
  for a timeout that is too large, and otherwise returns when the event is set or when
  the timeout is over, so every iteration ends the wait. \<^verbatim>\<open>wait()\<close> at line 509
  and \<^verbatim>\<open>clear()\<close> at line 510 hold the lock, both before the test of the stop flag.
\<close>

fun fallback_loop :: "platform \<Rightarrow> args \<Rightarrow> term_signal wake list \<Rightarrow> hb \<Rightarrow> hb outcome" where
  "fallback_loop pl a [] s =
     (if stop_event s then Exited s
      else if \<not> heartbeat_event s \<and> wait_raises_overflow pl (interval a) then Faulted s
      else Waiting s)"
| "fallback_loop pl a (w # ws) s =
     (if stop_event s then Exited s
      else if \<not> heartbeat_event s \<and> wait_raises_overflow pl (interval a) then Faulted s
      else
        let s1 = fold on_term_signal (during w) s in
        if stuck w \<noteq> [] then Hung (fold on_term_stuck (stuck w) s1)
        else
          let s2 = s1\<lparr>heartbeat_event := False\<rparr> in
          if stop_event s2 then Exited s2
          else
            let s3 = fold on_term_signal (late w) s2 in
            if late_stuck w \<noteq> [] then Hung (fold on_term_stuck (late_stuck w) s3)
            else
              let s4 = count_tick a (now w) s3 in
              if limit_reached a s4 then Exited s4 else fallback_loop pl a ws s4)"

text \<open>
  Lines 489-518. \<^verbatim>\<open>heartbeat_count = 0\<close>; in the POSIX mode the loop starts after
  \<^verbatim>\<open>signal.setitimer\<close>, whose exception \<^verbatim>\<open>except Exception\<close> catches before any
  tick. The schedule is the POSIX one or the fallback one, according to
  \<^verbatim>\<open>is_posix\<close>.
\<close>

definition start_state :: "flags \<Rightarrow> hb" where
  "start_state g = \<lparr>stop_event = stop_event g, heartbeat_event = heartbeat_event g,
                    heartbeat_count = 0, printed = []\<rparr>"

definition heartbeat_posix ::
  "platform \<Rightarrow> args \<Rightarrow> posix_signal wake list \<Rightarrow> flags \<Rightarrow> hb outcome" where
  "heartbeat_posix pl a ws g =
     (if setitimer_raises pl (interval a) then Faulted (start_state g)
      else posix_loop a ws (start_state g))"

definition heartbeat_fallback ::
  "platform \<Rightarrow> args \<Rightarrow> term_signal wake list \<Rightarrow> flags \<Rightarrow> hb outcome" where
  "heartbeat_fallback pl a ws g = fallback_loop pl a ws (start_state g)"

text \<open>
  An iteration without a termination request in which every handler returns.
\<close>

definition quiet_posix :: "posix_signal wake \<Rightarrow> bool" where
  "quiet_posix w \<longleftrightarrow> list_all (\<lambda>x. x = SIGALRM) (during w) \<and>
     list_all (\<lambda>x. x = SIGALRM) (late w) \<and> stuck w = [] \<and> late_stuck w = []"

definition quiet_fallback :: "term_signal wake \<Rightarrow> bool" where
  "quiet_fallback w \<longleftrightarrow> during w = [] \<and> late w = [] \<and> stuck w = [] \<and> late_stuck w = []"

definition fresh :: flags where
  "fresh = \<lparr>stop_event = False, heartbeat_event = False\<rparr>"


section \<open>The audio player\<close>

text \<open>
  Every \<^verbatim>\<open>except\<close> clause of the class catches \<^verbatim>\<open>Exception\<close>; an exception is
  recorded with the name of the call that raised it.
\<close>

datatype exn = Exception string

datatype pygame_module = PygameModule

text \<open>A \<^verbatim>\<open>subprocess.Popen\<close> object, with its pid.\<close>

datatype process = Process nat

text \<open>
  The \<^verbatim>\<open>Thread(target=_ps, daemon=True)\<close> object of lines 225-236; the closure
  \<^verbatim>\<open>_ps\<close> reads \<^verbatim>\<open>self.path\<close> and \<^verbatim>\<open>self.loop\<close>.
\<close>

datatype thread = Thread string bool

text \<open>
  The fields of \<^verbatim>\<open>AudioPlayer\<close>; \<open>thread\<close> is \<^verbatim>\<open>_thread\<close> and \<open>use_pygame\<close> is
  \<^verbatim>\<open>_use_pygame\<close>.
\<close>

record player =
  path :: string
  loop :: bool
  backend :: "string option"
  proc :: "process option"
  thread :: "thread option"
  use_pygame :: bool
  pygame :: "pygame_module option"

text \<open>
  What the constructor asks the host: whether \<^verbatim>\<open>import pygame\<close> and
  \<^verbatim>\<open>pygame.mixer.init()\<close> go through, what \<^verbatim>\<open>shutil.which\<close> finds, and
  \<^verbatim>\<open>platform.system()\<close>.
\<close>

record host =
  pygame_usable :: bool
  which :: "string \<Rightarrow> bool"
  system :: string

definition cli_players :: "string list" where
  "cli_players = [''mpg123'', ''mpv'', ''ffplay'', ''afplay'']"

definition openers :: "string list" where
  "openers = [''xdg-open'', ''open'', ''start'']"

text \<open>\<^verbatim>\<open>AudioPlayer.__init__\<close>, lines 108-142.\<close>

definition AudioPlayer_init :: "host \<Rightarrow> string \<Rightarrow> bool \<Rightarrow> player" where
  "AudioPlayer_init h pth lp =
     (let self0 = \<lparr>path = pth, loop = lp, backend = None, proc = None, thread = None,
                    use_pygame = False, pygame = None\<rparr>;
          self1 = (if pygame_usable h
                   then self0\<lparr>pygame := Some PygameModule, use_pygame := True,
                              backend := Some ''pygame''\<rparr>
                   else self0\<lparr>pygame := None\<rparr>)
      in if \<not> use_pygame self1 then
           (let self2 = (case find (which h) cli_players of
                           Some cmd \<Rightarrow> self1\<lparr>backend := Some cmd\<rparr>
                         | None \<Rightarrow> self1)
            in if backend self2 = None then
                 (if system h = ''Windows'' then self2\<lparr>backend := Some ''start''\<rparr>
                  else if which h ''xdg-open'' then self2\<lparr>backend := Some ''xdg-open''\<rparr>
                  else if which h ''open'' then self2\<lparr>backend := Some ''open''\<rparr>
                  else self2\<lparr>backend := None\<rparr>)
               else self2)
         else self1)"

text \<open>What the methods print, kept structured.\<close>

datatype message =
    AudioFileNotFound string
  | PlayingViaPygame
  | PygamePlaybackFailed exn
  | PlayingVia string nat
  | PlaybackFailed string exn
  | OpenedWith string
  | FallbackOpenFailed exn
  | PlayingViaPlaysound
  | NoAudioBackend
  | StoppedPygame
  | TerminatedExternal
  | ThreadCannotBeStopped

text \<open>The calls the methods make on the outside world, in the order they are made.\<close>

datatype action =
    Print message
  | MusicLoad string
  | MusicPlay int
  | Popen "string list"
  | PopenShell string
  | ImportPlaysound
  | ThreadStart thread
  | MusicStop
  | MixerQuit
  | ProcTerminate process
  | ProcWait process nat
  | ProcKill process

text \<open>
  A method runs on the player object, the module-level events and the trace of calls
  made so far; it returns a value or raises.
\<close>

record world =
  self :: player
  globals :: flags
  trace :: "action list"

type_synonym 'a comp = "world \<Rightarrow> (exn + 'a) \<times> world"

definition ret :: "'a \<Rightarrow> 'a comp" where
  "ret x = (\<lambda>w. (Inr x, w))"

definition and_then :: "'a comp \<Rightarrow> ('a \<Rightarrow> 'b comp) \<Rightarrow> 'b comp" where
  "and_then m f = (\<lambda>w. case m w of (Inl ex, w') \<Rightarrow> (Inl ex, w') | (Inr x, w') \<Rightarrow> f x w')"

definition try_except :: "'a comp \<Rightarrow> (exn \<Rightarrow> 'a comp) \<Rightarrow> 'a comp" where
  "try_except m h = (\<lambda>w. case m w of (Inl ex, w') \<Rightarrow> h ex w' | (Inr x, w') \<Rightarrow> (Inr x, w'))"

text \<open>An outside call: it is made, and then it raises or returns.\<close>

definition call :: "action \<Rightarrow> string \<Rightarrow> bool \<Rightarrow> unit comp" where
  "call act name raises =
     (\<lambda>w. (if raises then Inl (Exception name) else Inr (), w\<lparr>trace := trace w @ [act]\<rparr>))"

definition say :: "message \<Rightarrow> unit comp" where
  "say m = (\<lambda>w. (Inr (), w\<lparr>trace := trace w @ [Print m]\<rparr>))"

definition assign :: "(player \<Rightarrow> player) \<Rightarrow> unit comp" where
  "assign f = (\<lambda>w. (Inr (), w\<lparr>self := f (self w)\<rparr>))"

text \<open>
  How the outside answers the calls of one \<^verbatim>\<open>play()\<close>: whether the path is a file,
  and which calls raise.
\<close>

record play_env =
  is_file :: "string \<Rightarrow> bool"
  music_load_raises :: bool
  music_play_raises :: bool
  popen_raises :: "string list \<Rightarrow> bool"
  popen_shell_raises :: "string \<Rightarrow> bool"
  new_pid :: nat
  import_playsound_raises :: bool
  thread_start_raises :: bool

definition popen :: "play_env \<Rightarrow> string list \<Rightarrow> process comp" where
  "popen e argv =
     (\<lambda>w. (if popen_raises e argv then Inl (Exception ''Popen'') else Inr (Process (new_pid e)),
           w\<lparr>trace := trace w @ [Popen argv]\<rparr>))"

definition popen_shell :: "play_env \<Rightarrow> string \<Rightarrow> process comp" where
  "popen_shell e cmd =
     (\<lambda>w. (if popen_shell_raises e cmd then Inl (Exception ''Popen'') else Inr (Process (new_pid e)),
           w\<lparr>trace := trace w @ [PopenShell cmd]\<rparr>))"

text \<open>Lines 165-197: the argument list of the external player.\<close>

definition cli_args :: "string \<Rightarrow> bool \<Rightarrow> string \<Rightarrow> string list" where
  "cli_args b lp pth =
     (if b = ''ffplay'' then
        (let args = [b, ''-nodisp'', ''-autoexit'', ''-loglevel'', ''quiet'', pth]
         in if lp then [b, ''-nodisp'', ''-loop'', ''0'', ''-loglevel'', ''quiet'', pth] else args)
      else if b = ''mpv'' then
        (let args = [b, ''--no-terminal'', ''--really-quiet''];
             args = (if lp then args @ [''--loop-file=inf''] else args)
         in args @ [pth])
      else
        (let args = [b, pth]
         in if lp \<and> b = ''mpg123'' then [b, ''-z'', ''-q'', pth] else args))"

text \<open>
  The blocks of \<^verbatim>\<open>play\<close>. Each returns \<open>True\<close> when the block ended in
  \<^verbatim>\<open>return True\<close> and \<open>False\<close> when control fell through to the next block.
  Lines 152-161:
\<close>

definition play_pygame :: "play_env \<Rightarrow> bool comp" where
  "play_pygame e = (\<lambda>w.
     if use_pygame (self w) \<and> pygame (self w) \<noteq> None then
       try_except
         (and_then (call (MusicLoad (path (self w))) ''music.load'' (music_load_raises e)) (\<lambda>_.
          and_then (call (MusicPlay (if loop (self w) then - 1 else 0)) ''music.play''
                      (music_play_raises e)) (\<lambda>_.
          and_then (say PlayingViaPygame) (\<lambda>_. ret True))))
         (\<lambda>ex. and_then (say (PygamePlaybackFailed ex)) (\<lambda>_. ret False)) w
     else ret False w)"

text \<open>Lines 163-204:\<close>

definition play_cli :: "play_env \<Rightarrow> bool comp" where
  "play_cli e = (\<lambda>w.
     case backend (self w) of
       None \<Rightarrow> ret False w
     | Some b \<Rightarrow>
         if b \<in> set cli_players then
           try_except
             (and_then (popen e (cli_args b (loop (self w)) (path (self w)))) (\<lambda>p.
              and_then (assign (\<lambda>s. s\<lparr>proc := Some p\<rparr>)) (\<lambda>_.
              and_then (say (PlayingVia b (case p of Process pid \<Rightarrow> pid))) (\<lambda>_. ret True))))
             (\<lambda>ex. and_then (say (PlaybackFailed b ex)) (\<lambda>_. ret False)) w
         else ret False w)"

text \<open>Lines 206-219; the shell command is \<^verbatim>\<open>start "" "<path>"\<close>.\<close>

definition start_command :: "string \<Rightarrow> string" where
  "start_command pth = ''start '' @ [CHR 0x22, CHR 0x22] @ '' '' @ [CHR 0x22] @ pth @ [CHR 0x22]"

definition play_opener :: "play_env \<Rightarrow> bool comp" where
  "play_opener e = (\<lambda>w.
     case backend (self w) of
       None \<Rightarrow> ret False w
     | Some b \<Rightarrow>
         if b \<in> set openers then
           try_except
             (and_then (if b = ''start'' then popen_shell e (start_command (path (self w)))
                        else popen e [b, path (self w)]) (\<lambda>p.
              and_then (assign (\<lambda>s. s\<lparr>proc := Some p\<rparr>)) (\<lambda>_.
              and_then (say (OpenedWith b)) (\<lambda>_. ret True))))
             (\<lambda>ex. and_then (say (FallbackOpenFailed ex)) (\<lambda>_. ret False)) w
         else ret False w)"

text \<open>Lines 221-242:\<close>

definition play_playsound :: "play_env \<Rightarrow> bool comp" where
  "play_playsound e = (\<lambda>w.
     try_except
       (and_then (call ImportPlaysound ''import playsound'' (import_playsound_raises e)) (\<lambda>_.
        and_then (assign (\<lambda>s. s\<lparr>thread := Some (Thread (path s) (loop s))\<rparr>)) (\<lambda>_.
        and_then (call (ThreadStart (Thread (path (self w)) (loop (self w)))) ''Thread.start''
                    (thread_start_raises e)) (\<lambda>_.
        and_then (assign (\<lambda>s. s\<lparr>backend := Some ''playsound-thread''\<rparr>)) (\<lambda>_.
        and_then (say PlayingViaPlaysound) (\<lambda>_. ret True))))))
       (\<lambda>ex. ret False) w)"

text \<open>\<^verbatim>\<open>AudioPlayer.play\<close>, lines 144-245.\<close>

definition play :: "play_env \<Rightarrow> bool comp" where
  "play e = (\<lambda>w.
     if \<not> is_file e (path (self w)) then
       and_then (say (AudioFileNotFound (path (self w)))) (\<lambda>_. ret False) w
     else
       and_then (play_pygame e) (\<lambda>r1. if r1 then ret True else
       and_then (play_cli e) (\<lambda>r2. if r2 then ret True else
       and_then (play_opener e) (\<lambda>r3. if r3 then ret True else
       and_then (play_playsound e) (\<lambda>r4. if r4 then ret True else
       and_then (say NoAudioBackend) (\<lambda>_. ret False))))) w)"

text \<open>
  How the outside answers the calls of one \<^verbatim>\<open>stop()\<close>. \<^verbatim>\<open>proc.wait(timeout=1)\<close>
  raises \<^verbatim>\<open>TimeoutExpired\<close> when the process is still running after the second.
\<close>

record stop_env =
  music_stop_raises :: bool
  mixer_quit_raises :: bool
  terminate_raises :: bool
  wait_raises :: bool
  kill_raises :: bool
  is_alive :: bool

text \<open>
  The blocks of \<^verbatim>\<open>stop\<close>; each takes the value of the local \<^verbatim>\<open>stopped\<close> and
  returns its new value. Lines 249-259:
\<close>

definition stop_pygame :: "stop_env \<Rightarrow> bool \<Rightarrow> bool comp" where
  "stop_pygame e stopped = (\<lambda>w.
     if use_pygame (self w) \<and> pygame (self w) \<noteq> None then
       try_except
         (and_then (call MusicStop ''music.stop'' (music_stop_raises e)) (\<lambda>_.
          and_then (try_except (call MixerQuit ''mixer.quit'' (mixer_quit_raises e))
                      (\<lambda>ex. ret ())) (\<lambda>_.
          and_then (say StoppedPygame) (\<lambda>_. ret True))))
         (\<lambda>ex. ret stopped) w
     else ret stopped w)"

text \<open>Lines 260-271:\<close>

definition stop_proc :: "stop_env \<Rightarrow> bool \<Rightarrow> bool comp" where
  "stop_proc e stopped = (\<lambda>w.
     case proc (self w) of
       None \<Rightarrow> ret stopped w
     | Some p \<Rightarrow>
         try_except
           (and_then (call (ProcTerminate p) ''terminate'' (terminate_raises e)) (\<lambda>_.
            and_then (call (ProcWait p 1) ''wait'' (wait_raises e)) (\<lambda>_.
            and_then (say TerminatedExternal) (\<lambda>_. ret True))))
           (\<lambda>ex. try_except
                    (and_then (call (ProcKill p) ''kill'' (kill_raises e)) (\<lambda>_. ret True))
                    (\<lambda>ex'. ret stopped)) w)"

text \<open>Lines 272-276:\<close>

definition stop_thread :: "stop_env \<Rightarrow> bool \<Rightarrow> bool comp" where
  "stop_thread e stopped = (\<lambda>w.
     if \<not> stopped \<and> thread (self w) \<noteq> None \<and> is_alive e then
       and_then (say ThreadCannotBeStopped) (\<lambda>_. ret True) w
     else ret stopped w)"

text \<open>\<^verbatim>\<open>AudioPlayer.stop\<close>, lines 247-277.\<close>

definition stop :: "stop_env \<Rightarrow> bool comp" where
  "stop e =
     and_then (stop_pygame e False) (\<lambda>s1.
     and_then (stop_proc e s1) (\<lambda>s2.
     stop_thread e s2))"

text \<open>A method call on a player, started with an empty trace.\<close>

definition on_player :: "player \<Rightarrow> flags \<Rightarrow> world" where
  "on_player p g = \<lparr>self = p, globals = g, trace = []\<rparr>"


subsection \<open>Reading a trace\<close>

text \<open>The backend a call belongs to, and the backends a trace attempted, in order.\<close>

fun attempt_of :: "action \<Rightarrow> string option" where
  "attempt_of (MusicLoad f) = Some ''pygame''"
| "attempt_of (Popen argv) = (case argv of [] \<Rightarrow> None | b # rest \<Rightarrow> Some b)"
| "attempt_of (PopenShell cmd) = Some ''start''"
| "attempt_of ImportPlaysound = Some ''playsound-thread''"
| "attempt_of other = None"

definition attempts_of :: "action list \<Rightarrow> string list" where
  "attempts_of tr = List.map_filter attempt_of tr"

text \<open>Whether the attempt of a backend raises, given the answers of the outside.\<close>

definition attempt_raises :: "play_env \<Rightarrow> player \<Rightarrow> string \<Rightarrow> bool" where
  "attempt_raises e p c =
     (if c = ''pygame'' then music_load_raises e \<or> music_play_raises e
      else if c \<in> set cli_players then popen_raises e (cli_args c (loop p) (path p))
      else if c = ''start'' then popen_shell_raises e (start_command (path p))
      else if c \<in> set openers then popen_raises e [c, path p]
      else import_playsound_raises e \<or> thread_start_raises e)"

text \<open>Trying a list of backends in order until one does not raise.\<close>

fun chain_attempts :: "(string \<Rightarrow> bool) \<Rightarrow> string list \<Rightarrow> string list" where
  "chain_attempts r [] = []"
| "chain_attempts r (c # cs) = c # (if r c then chain_attempts r cs else [])"

text \<open>
  The chain in the words of the specification: the in-process mixer, then the first
  command-line player present on the host, then the file opener of the platform, then
  the playsound thread.
\<close>

definition spec_candidates :: "host \<Rightarrow> string list" where
  "spec_candidates h =
     (if pygame_usable h then [''pygame''] else []) @
     (case find (which h) cli_players of Some c \<Rightarrow> [c] | None \<Rightarrow> []) @
     (if system h = ''Windows'' then [''start'']
      else if which h ''xdg-open'' then [''xdg-open'']
      else if which h ''open'' then [''open'']
      else []) @
     [''playsound-thread'']"

text \<open>What \<^verbatim>\<open>play\<close> has to go through: the backend of the player, then playsound.\<close>

definition own_candidates :: "player \<Rightarrow> string list" where
  "own_candidates p = (case backend p of None \<Rightarrow> [] | Some b \<Rightarrow> [b]) @ [''playsound-thread'']"

text \<open>
  \<^verbatim>\<open>play\<close> gets as far as the playsound block of lines 221-242: the file exists and
  none of the blocks of lines 152-219 ends in \<^verbatim>\<open>return True\<close>.
\<close>

definition falls_to_playsound :: "play_env \<Rightarrow> player \<Rightarrow> bool" where
  "falls_to_playsound e p \<longleftrightarrow>
     is_file e (path p) \<and>
     \<not> (use_pygame p \<and> pygame p \<noteq> None \<and> \<not> music_load_raises e \<and> \<not> music_play_raises e) \<and>
     \<not> (case backend p of None \<Rightarrow> False
         | Some b \<Rightarrow> b \<in> set cli_players \<and> \<not> popen_raises e (cli_args b (loop p) (path p))) \<and>
     \<not> (case backend p of None \<Rightarrow> False
         | Some b \<Rightarrow> b \<in> set openers \<and>
             \<not> (if b = ''start'' then popen_shell_raises e (start_command (path p))
                 else popen_raises e [b, path p]))"



subsection \<open>Concrete runs\<close>

text \<open>
  The limits of a 64-bit CPython: \<^verbatim>\<open>setitimer\<close> converts up to \<open>2^63 - 1\<close>
  nanoseconds, and \<^verbatim>\<open>threading.TIMEOUT_MAX\<close> is 9223372036 seconds.
\<close>

definition cpython64 :: platform where
  "cpython64 = \<lparr>itimer_max = 9223372036854775807 / 1000000000, timeout_max = 9223372036\<rparr>"

text \<open>Three heartbeats at an interval of one second, and schedules of four timer wakes.\<close>

definition demo_args :: args where
  "demo_args = \<lparr>interval = Finite 1, message = ''heartbeat'', silent = False, count = 3\<rparr>"

definition demo_posix_wakes :: "posix_signal wake list" where
  "demo_posix_wakes =
     [\<lparr>during = [SIGALRM], stuck = [], late = [], late_stuck = [], now = ''12:00:01''\<rparr>,
      \<lparr>during = [SIGALRM], stuck = [], late = [SIGALRM], late_stuck = [],
       now = ''12:00:02''\<rparr>,
      \<lparr>during = [SIGALRM, SIGALRM], stuck = [], late = [], late_stuck = [], now = ''12:00:03''\<rparr>,
      \<lparr>during = [SIGALRM], stuck = [], late = [], late_stuck = [], now = ''12:00:04''\<rparr>]"

definition demo_fallback_wakes :: "term_signal wake list" where
  "demo_fallback_wakes =
     [\<lparr>during = [], stuck = [], late = [], late_stuck = [], now = ''12:00:01''\<rparr>,
      \<lparr>during = [], stuck = [], late = [], late_stuck = [], now = ''12:00:02''\<rparr>,
      \<lparr>during = [], stuck = [], late = [], late_stuck = [], now = ''12:00:03''\<rparr>,
      \<lparr>during = [], stuck = [], late = [], late_stuck = [], now = ''12:00:04''\<rparr>]"

text \<open>An interval of ten thousand million seconds.\<close>

definition huge_args :: args where
  "huge_args = \<lparr>interval = Finite 10000000000, message = ''heartbeat'', silent = False,
                 count = 3\<rparr>"

text \<open>
  Twenty thousand heartbeats at an interval of a tenth of a millisecond; the second
  timer signal is followed by a third while the loop is inside \<^verbatim>\<open>clear()\<close>, whose
  handler blocks before it has assigned anything.
\<close>

definition fast_args :: args where
  "fast_args = \<lparr>interval = Finite (1 / 10000), message = ''heartbeat'', silent = False,
                 count = 20000\<rparr>"

definition fast_posix_wakes :: "posix_signal wake list" where
  "fast_posix_wakes =
     [\<lparr>during = [SIGALRM], stuck = [], late = [], late_stuck = [], now = ''12:00:00''\<rparr>,
      \<lparr>during = [SIGALRM], stuck = [], late = [], late_stuck = [Stuck SIGALRM 0],
       now = ''12:00:00''\<rparr>,
      \<lparr>during = [SIGALRM], stuck = [], late = [], late_stuck = [], now = ''12:00:00''\<rparr>]"



subsection \<open>Concrete hosts and answers\<close>

definition pygame_host :: host where
  "pygame_host = \<lparr>pygame_usable = True, which = (\<lambda>c. False), system = ''Linux''\<rparr>"

definition mpv_host :: host where
  "mpv_host = \<lparr>pygame_usable = False, which = (\<lambda>c. c = ''mpv''), system = ''Linux''\<rparr>"

definition bare_host :: host where
  "bare_host = \<lparr>pygame_usable = False, which = (\<lambda>c. False), system = ''Linux''\<rparr>"

definition play_fine :: play_env where
  "play_fine = \<lparr>is_file = (\<lambda>f. True), music_load_raises = False, music_play_raises = False,
     popen_raises = (\<lambda>argv. False), popen_shell_raises = (\<lambda>cmd. False), new_pid = 4242,
     import_playsound_raises = False, thread_start_raises = False\<rparr>"

definition stop_fine :: stop_env where
  "stop_fine = \<lparr>music_stop_raises = False, mixer_quit_raises = False, terminate_raises = False,
     wait_raises = False, kill_raises = False, is_alive = False\<rparr>"

definition stop_slow :: stop_env where
  "stop_slow = \<lparr>music_stop_raises = False, mixer_quit_raises = False, terminate_raises = False,
     wait_raises = True, kill_raises = False, is_alive = False\<rparr>"

definition stop_alive :: stop_env where
  "stop_alive = \<lparr>music_stop_raises = False, mixer_quit_raises = False, terminate_raises = False,
     wait_raises = False, kill_raises = False, is_alive = True\<rparr>"

text \<open>
  The answers to a \<^verbatim>\<open>stop()\<close> after the mixer has been quit: \<^verbatim>\<open>music.stop()\<close>
  raises.
\<close>

definition stop_mixer_gone :: stop_env where
  "stop_mixer_gone = \<lparr>music_stop_raises = True, mixer_quit_raises = False,
     terminate_raises = False, wait_raises = False, kill_raises = False, is_alive = False\<rparr>"

text \<open>The no-op of the specification: the call changes nothing, the trace included.\<close>

definition spec_stop_is_noop :: "stop_env \<Rightarrow> world \<Rightarrow> bool" where
  "spec_stop_is_noop e w \<longleftrightarrow> snd (stop e w) = w"


definition play_mixer_broken :: play_env where
  "play_mixer_broken = \<lparr>is_file = (\<lambda>f. True), music_load_raises = True,
     music_play_raises = False, popen_raises = (\<lambda>argv. False),
     popen_shell_raises = (\<lambda>cmd. False), new_pid = 4242,
     import_playsound_raises = False, thread_start_raises = False\<rparr>"

definition play_mixer_only_broken :: play_env where
  "play_mixer_only_broken = \<lparr>is_file = (\<lambda>f. True), music_load_raises = True,
     music_play_raises = False, popen_raises = (\<lambda>argv. False),
     popen_shell_raises = (\<lambda>cmd. False), new_pid = 4242,
     import_playsound_raises = True, thread_start_raises = False\<rparr>"

definition pygame_mpg123_host :: host where
  "pygame_mpg123_host =
     \<lparr>pygame_usable = True, which = (\<lambda>c. c = ''mpg123''), system = ''Linux''\<rparr>"

section \<open>Properties of the heartbeat loop\<close>

lemma fold_alarm_flags:
  "list_all (\<lambda>x. x = SIGALRM) xs \<Longrightarrow>
     stop_event (fold on_posix_signal xs s) = stop_event s \<and>
     heartbeat_count (fold on_posix_signal xs s) = heartbeat_count s \<and>
     printed (fold on_posix_signal xs s) = printed s \<and>
     heartbeat_event (fold on_posix_signal xs s) = (heartbeat_event s \<or> xs \<noteq> [])"
  by (induction xs arbitrary: s) (auto simp: on_posix_signal_def alarm_handler_def)

lemma fold_posix_keeps:
  "heartbeat_count (fold on_posix_signal xs s) = heartbeat_count s \<and>
   printed (fold on_posix_signal xs s) = printed s"
  by (induction xs arbitrary: s)
     (auto simp: on_posix_signal_def on_term_signal_def alarm_handler_def sigterm_handler_def
           split: posix_signal.splits term_signal.splits)

lemma fold_term_keeps:
  "heartbeat_count (fold on_term_signal xs s) = heartbeat_count s \<and>
   printed (fold on_term_signal xs s) = printed s"
  by (induction xs arbitrary: s)
     (auto simp: on_term_signal_def sigterm_handler_def split: term_signal.splits)

lemma count_tick_simps:
  "heartbeat_count (count_tick a t s) = heartbeat_count s + 1"
  "stop_event (count_tick a t s) = stop_event s"
  "map number (printed (count_tick a t s)) =
     map number (printed s) @ (if silent a then [] else [heartbeat_count s + 1])"
  by (simp_all add: count_tick_def Let_def)

lemma upto_step: "n < m \<Longrightarrow> [n + 1..m] = (n + 1) # [n + 2..m]"
  by (simp add: upto_rec1 add.commute add.left_commute)

lemma posix_quiet_run:
  "list_all quiet_posix ws \<Longrightarrow> list_all (\<lambda>w. during w \<noteq> []) ws \<Longrightarrow>
   \<not> stop_event s \<Longrightarrow> heartbeat_count s < count a \<Longrightarrow> 0 < count a \<Longrightarrow>
   (if count a - heartbeat_count s \<le> int (length ws)
    then is_exited (posix_loop a ws s) \<and>
         heartbeat_count (final (posix_loop a ws s)) = count a \<and>
         map number (printed (final (posix_loop a ws s))) =
           map number (printed s) @ (if silent a then [] else [heartbeat_count s + 1..count a])
    else posix_loop a ws s = Waiting (final (posix_loop a ws s)) \<and>
         heartbeat_count (final (posix_loop a ws s)) = heartbeat_count s + int (length ws))"
proof (induction ws arbitrary: s)
  case Nil
  then show ?case by simp
next
  case (Cons w ws)
  let ?s1 = "fold on_posix_signal (during w) s"
  let ?s2 = "fold on_posix_signal (late w) ?s1"
  let ?s3 = "count_tick a (now w) (?s2\<lparr>heartbeat_event := False\<rparr>)"
  from Cons.prems have q: "list_all (\<lambda>x. x = SIGALRM) (during w)"
    "list_all (\<lambda>x. x = SIGALRM) (late w)" "during w \<noteq> []" "stuck w = []"
    "late_stuck w = []"
    by (simp_all add: quiet_posix_def)
  have s1: "\<not> stop_event ?s1" "heartbeat_event ?s1"
    using fold_alarm_flags[OF q(1), of s] q(3) Cons.prems(3) by simp_all
  have s2: "\<not> stop_event ?s2" "heartbeat_event ?s2"
    using fold_alarm_flags[OF q(2), of ?s1] s1 by simp_all
  have c2: "heartbeat_count ?s2 = heartbeat_count s" "printed ?s2 = printed s"
    using fold_posix_keeps[of "late w" ?s1] fold_posix_keeps[of "during w" s] by simp_all
  have s3: "heartbeat_count ?s3 = heartbeat_count s + 1" "\<not> stop_event ?s3"
    "map number (printed ?s3) = map number (printed s) @ (if silent a then [] else [heartbeat_count s + 1])"
    using c2 s2 by (simp_all add: count_tick_simps)
  have unfold: "posix_loop a (w # ws) s =
      (if limit_reached a ?s3 then Exited ?s3 else posix_loop a ws ?s3)"
    using Cons.prems(3) q(3,4,5) s1 s2 by (simp add: Let_def)
  show ?case
  proof (cases "limit_reached a ?s3")
    case True
    then have eq: "heartbeat_count s + 1 = count a"
      using s3(1) Cons.prems(4) by (simp add: limit_reached_def)
    then have "[heartbeat_count s + 1..count a] = [heartbeat_count s + 1]" by simp
    with True eq s3 show ?thesis
      by (simp add: unfold del: posix_loop.simps)
  next
    case False
    then have lt: "heartbeat_count ?s3 < count a"
      using Cons.prems(4,5) by (simp add: limit_reached_def)
    have ih: "(if count a - heartbeat_count ?s3 \<le> int (length ws)
      then is_exited (posix_loop a ws ?s3) \<and>
         heartbeat_count (final (posix_loop a ws ?s3)) = count a \<and>
         map number (printed (final (posix_loop a ws ?s3))) =
           map number (printed ?s3) @ (if silent a then [] else [heartbeat_count ?s3 + 1..count a])
      else posix_loop a ws ?s3 = Waiting (final (posix_loop a ws ?s3)) \<and>
         heartbeat_count (final (posix_loop a ws ?s3)) = heartbeat_count ?s3 + int (length ws))"
      using Cons.IH[of ?s3] Cons.prems(1,2,5) s3(2) lt by simp
    have up: "[heartbeat_count s + 1..count a] = (heartbeat_count s + 1) # [2 + heartbeat_count s..count a]"
      using lt s3(1) upto_step[of "heartbeat_count s" "count a"] by (simp add: add.commute)
    show ?thesis
      using ih False s3 up by (simp add: unfold del: posix_loop.simps split: if_splits)
  qed
qed


lemma fallback_quiet_run:
  "list_all quiet_fallback ws \<Longrightarrow> \<not> wait_raises_overflow pl (interval a) \<Longrightarrow>
   \<not> stop_event s \<Longrightarrow> heartbeat_count s < count a \<Longrightarrow> 0 < count a \<Longrightarrow>
   (if count a - heartbeat_count s \<le> int (length ws)
    then is_exited (fallback_loop pl a ws s) \<and>
         heartbeat_count (final (fallback_loop pl a ws s)) = count a \<and>
         map number (printed (final (fallback_loop pl a ws s))) =
           map number (printed s) @ (if silent a then [] else [heartbeat_count s + 1..count a])
    else fallback_loop pl a ws s = Waiting (final (fallback_loop pl a ws s)) \<and>
         heartbeat_count (final (fallback_loop pl a ws s)) = heartbeat_count s + int (length ws))"
proof (induction ws arbitrary: s)
  case Nil
  then show ?case by simp
next
  case (Cons w ws)
  let ?s3 = "count_tick a (now w) (s\<lparr>heartbeat_event := False\<rparr>)"
  from Cons.prems have q: "during w = []" "late w = []" "stuck w = []" "late_stuck w = []"
    by (simp_all add: quiet_fallback_def)
  have s3: "heartbeat_count ?s3 = heartbeat_count s + 1" "\<not> stop_event ?s3"
    "map number (printed ?s3) = map number (printed s) @ (if silent a then [] else [heartbeat_count s + 1])"
    using Cons.prems(3) by (simp_all add: count_tick_simps)
  have unfold: "fallback_loop pl a (w # ws) s =
      (if limit_reached a ?s3 then Exited ?s3 else fallback_loop pl a ws ?s3)"
    using Cons.prems(2,3) q by (simp add: Let_def)
  show ?case
  proof (cases "limit_reached a ?s3")
    case True
    then have eq: "heartbeat_count s + 1 = count a"
      using s3(1) Cons.prems(4) by (simp add: limit_reached_def)
    then have "[heartbeat_count s + 1..count a] = [heartbeat_count s + 1]" by simp
    with True eq s3 show ?thesis
      by (simp add: unfold del: fallback_loop.simps)
  next
    case False
    then have lt: "heartbeat_count ?s3 < count a"
      using Cons.prems(4,5) by (simp add: limit_reached_def)
    have ih: "(if count a - heartbeat_count ?s3 \<le> int (length ws)
      then is_exited (fallback_loop pl a ws ?s3) \<and>
         heartbeat_count (final (fallback_loop pl a ws ?s3)) = count a \<and>
         map number (printed (final (fallback_loop pl a ws ?s3))) =
           map number (printed ?s3) @ (if silent a then [] else [heartbeat_count ?s3 + 1..count a])
      else fallback_loop pl a ws ?s3 = Waiting (final (fallback_loop pl a ws ?s3)) \<and>
         heartbeat_count (final (fallback_loop pl a ws ?s3)) = heartbeat_count ?s3 + int (length ws))"
      using Cons.IH[of ?s3] Cons.prems(1,2,5) s3(2) lt by simp
    have up: "[heartbeat_count s + 1..count a] = (heartbeat_count s + 1) # [2 + heartbeat_count s..count a]"
      using lt s3(1) upto_step[of "heartbeat_count s" "count a"] by (simp add: add.commute)
    show ?thesis
      using ih False s3 up by (simp add: unfold del: fallback_loop.simps split: if_splits)
  qed
qed

lemma count_tick_printed:
  "set (printed (count_tick a t s)) \<subseteq> set (printed s) \<union>
      {\<lparr>stamp = t, text_of = message a, number = heartbeat_count s + 1\<rparr>}"
  by (auto simp: count_tick_def Let_def)

lemma count_tick_bound:
  "heartbeat_count s < n \<Longrightarrow> \<forall>l\<in>set (printed s). number l \<le> n \<Longrightarrow>
   \<forall>l\<in>set (printed (count_tick a t s)). number l \<le> n"
  by (auto simp: count_tick_def Let_def)

lemma on_term_stuck_keeps:
  "heartbeat_count (on_term_stuck k s) = heartbeat_count s"
  "printed (on_term_stuck k s) = printed s"
  by (simp_all add: on_term_stuck_def sigterm_handler_upto_def
        split: stuck.splits term_signal.splits)

lemma on_posix_stuck_keeps:
  "heartbeat_count (on_posix_stuck k s) = heartbeat_count s"
  "printed (on_posix_stuck k s) = printed s"
  by (simp_all add: on_posix_stuck_def alarm_handler_upto_def on_term_stuck_keeps
        split: stuck.splits posix_signal.splits)



lemma fold_posix_stuck_keeps:
  "heartbeat_count (fold on_posix_stuck xs s) = heartbeat_count s \<and>
   printed (fold on_posix_stuck xs s) = printed s"
  by (induction xs arbitrary: s) (simp_all add: on_posix_stuck_keeps)

lemma fold_term_stuck_keeps:
  "heartbeat_count (fold on_term_stuck xs s) = heartbeat_count s \<and>
   printed (fold on_term_stuck xs s) = printed s"
  by (induction xs arbitrary: s) (simp_all add: on_term_stuck_keeps)

lemma posix_bound:
  "0 < count a \<Longrightarrow> heartbeat_count s < count a \<Longrightarrow>
   \<forall>l\<in>set (printed s). number l \<le> count a \<Longrightarrow>
   heartbeat_count (final (posix_loop a ws s)) \<le> count a \<and>
   (\<forall>l\<in>set (printed (final (posix_loop a ws s))). number l \<le> count a)"
proof (induction ws arbitrary: s)
  case Nil
  then show ?case by simp
next
  case (Cons w ws)
  let ?s1 = "fold on_posix_signal (during w) s"
  let ?s2 = "fold on_posix_signal (late w) ?s1"
  let ?s3 = "count_tick a (now w) (?s2\<lparr>heartbeat_event := False\<rparr>)"
  have k1: "heartbeat_count ?s1 = heartbeat_count s" "printed ?s1 = printed s"
    using fold_posix_keeps[of "during w" s] by simp_all
  have k2: "heartbeat_count ?s2 = heartbeat_count s" "printed ?s2 = printed s"
    using fold_posix_keeps[of "late w" ?s1] k1 by simp_all
  have k3: "heartbeat_count ?s3 = heartbeat_count s + 1"
    "\<forall>l\<in>set (printed ?s3). number l \<le> count a"
    using k2 Cons.prems(2,3) count_tick_bound[of "?s2\<lparr>heartbeat_event := False\<rparr>" "count a" a "now w"]
    by (simp_all add: count_tick_simps)
  have r3: "\<not> limit_reached a ?s3 \<Longrightarrow>
      heartbeat_count (final (posix_loop a ws ?s3)) \<le> count a \<and>
      (\<forall>l\<in>set (printed (final (posix_loop a ws ?s3))). number l \<le> count a)"
    using Cons.IH[of ?s3] k3 Cons.prems(1) by (simp add: limit_reached_def)
  have r2: "heartbeat_count (final (posix_loop a ws ?s2)) \<le> count a \<and>
      (\<forall>l\<in>set (printed (final (posix_loop a ws ?s2))). number l \<le> count a)"
    using Cons.IH[of ?s2] k2 Cons.prems by simp
  have k4: "heartbeat_count (fold on_posix_stuck (late_stuck w) ?s2) = heartbeat_count s"
    "printed (fold on_posix_stuck (late_stuck w) ?s2) = printed s"
    using fold_posix_stuck_keeps[of "late_stuck w" ?s2] k2 by simp_all
  have k5: "heartbeat_count (fold on_posix_stuck (stuck w) ?s1) = heartbeat_count s"
    "printed (fold on_posix_stuck (stuck w) ?s1) = printed s"
    using fold_posix_stuck_keeps[of "stuck w" ?s1] k1 by simp_all
  show ?case
    using Cons.prems k1 k2 k3 k4 k5 r3 r2
    by (simp add: Let_def del: posix_loop.simps add: posix_loop.simps(2))
qed

lemma fallback_bound:
  "0 < count a \<Longrightarrow> heartbeat_count s < count a \<Longrightarrow>
   \<forall>l\<in>set (printed s). number l \<le> count a \<Longrightarrow>
   heartbeat_count (final (fallback_loop pl a ws s)) \<le> count a \<and>
   (\<forall>l\<in>set (printed (final (fallback_loop pl a ws s))). number l \<le> count a)"
proof (induction ws arbitrary: s)
  case Nil
  then show ?case by simp
next
  case (Cons w ws)
  let ?s1 = "fold on_term_signal (during w) s"
  let ?s2 = "?s1\<lparr>heartbeat_event := False\<rparr>"
  let ?s2' = "fold on_term_signal (late w) ?s2"
  let ?s3 = "count_tick a (now w) ?s2'"
  have k1: "heartbeat_count ?s1 = heartbeat_count s" "printed ?s1 = printed s"
    using fold_term_keeps[of "during w" s] by simp_all
  have k2: "heartbeat_count ?s2' = heartbeat_count s" "printed ?s2' = printed s"
    using fold_term_keeps[of "late w" ?s2] k1 by simp_all
  have k3: "heartbeat_count ?s3 = heartbeat_count s + 1"
    "\<forall>l\<in>set (printed ?s3). number l \<le> count a"
    using k2 Cons.prems(2,3) count_tick_bound[of ?s2' "count a" a "now w"]
    by (simp_all add: count_tick_simps)
  have k4: "heartbeat_count (fold on_term_stuck (stuck w) ?s1) = heartbeat_count s"
    "printed (fold on_term_stuck (stuck w) ?s1) = printed s"
    using fold_term_stuck_keeps[of "stuck w" ?s1] k1 by simp_all
  have k5: "heartbeat_count (fold on_term_stuck (late_stuck w) ?s2') = heartbeat_count s"
    "printed (fold on_term_stuck (late_stuck w) ?s2') = printed s"
    using fold_term_stuck_keeps[of "late_stuck w" ?s2'] k2 by simp_all
  have r3: "\<not> limit_reached a ?s3 \<Longrightarrow>
      heartbeat_count (final (fallback_loop pl a ws ?s3)) \<le> count a \<and>
      (\<forall>l\<in>set (printed (final (fallback_loop pl a ws ?s3))). number l \<le> count a)"
    using Cons.IH[of ?s3] k3 Cons.prems(1) by (simp add: limit_reached_def)
  show ?case
    using Cons.prems k1 k2 k3 k4 k5 r3
    by (simp add: Let_def del: fallback_loop.simps add: fallback_loop.simps(2))
qed

lemma list_all_take: "list_all P xs \<Longrightarrow> list_all P (take k xs)"
  by (induction xs arbitrary: k) (auto simp: take_Cons split: nat.splits)

lemma start_state_simps:
  "stop_event (start_state g) = stop_event g"
  "heartbeat_event (start_state g) = heartbeat_event g"
  "heartbeat_count (start_state g) = 0"
  "printed (start_state g) = []"
  by (simp_all add: start_state_def)

lemma fresh_simps: "stop_event fresh = False" "heartbeat_event fresh = False"
  by (simp_all add: fresh_def)

lemma posix_prefix_count:
  assumes "0 < count a" "list_all quiet_posix ws" "list_all (\<lambda>w. during w \<noteq> []) ws"
    "\<not> stop_event g" "int k \<le> count a" "k \<le> length ws"
  shows "heartbeat_count (final (posix_loop a (take k ws) (start_state g))) = int k"
proof -
  have len: "length (take k ws) = k" using assms(6) by simp
  show ?thesis
    using posix_quiet_run[of "take k ws" "start_state g" a] assms len
    by (simp add: list_all_take start_state_simps split: if_splits)
qed

lemma fallback_prefix_count:
  assumes "0 < count a" "list_all quiet_fallback ws" "\<not> wait_raises_overflow pl (interval a)"
    "\<not> stop_event g" "int k \<le> count a" "k \<le> length ws"
  shows "heartbeat_count (final (fallback_loop pl a (take k ws) (start_state g))) = int k"
proof -
  have len: "length (take k ws) = k" using assms(6) by simp
  show ?thesis
    using fallback_quiet_run[of "take k ws" pl a "start_state g"] assms len
    by (simp add: list_all_take start_state_simps split: if_splits)
qed

text \<open>
  Claim C1, amended. With a finite positive interval that the timer calls of the
  platform accept, a positive limit \<open>N = count a\<close>, no termination request and no
  handler that starts while the main thread holds the lock it asks for (so every
  handler returns), the loop of either mode counts exactly \<open>N\<close> ticks and is then
  left: over a schedule of at least \<open>N\<close> iterations the run ends in \<open>Exited\<close> with
  \<open>heartbeat_count = N\<close>, the printed numbers are \<open>1, 2, ..., N\<close> (nothing when
  silent), and after the first \<open>k \<le> N\<close> iterations the counter is \<open>k\<close>. Over no
  schedule whatsoever does the counter or a printed number exceed \<open>N\<close>.
\<close>

theorem heartbeat_counts_exactly_N:
  assumes "interval a = Finite x" and "0 < x"
    and "x \<le> itimer_max pl" and "x \<le> timeout_max pl"
    and "0 < count a"
    and "list_all quiet_posix pw" and "list_all (\<lambda>w. during w \<noteq> []) pw"
    and "count a \<le> int (length pw)"
    and "list_all quiet_fallback fw" and "count a \<le> int (length fw)"
  shows "is_exited (heartbeat_posix pl a pw fresh) \<and>
         heartbeat_count (final (heartbeat_posix pl a pw fresh)) = count a \<and>
         map number (printed (final (heartbeat_posix pl a pw fresh))) =
           (if silent a then [] else [1..count a]) \<and>
         (\<forall>k. int k \<le> count a \<longrightarrow>
              heartbeat_count (final (heartbeat_posix pl a (take k pw) fresh)) = int k) \<and>
         (\<forall>ws g. heartbeat_count (final (heartbeat_posix pl a ws g)) \<le> count a \<and>
              (\<forall>l\<in>set (printed (final (heartbeat_posix pl a ws g))). number l \<le> count a)) \<and>
         is_exited (heartbeat_fallback pl a fw fresh) \<and>
         heartbeat_count (final (heartbeat_fallback pl a fw fresh)) = count a \<and>
         map number (printed (final (heartbeat_fallback pl a fw fresh))) =
           (if silent a then [] else [1..count a]) \<and>
         (\<forall>k. int k \<le> count a \<longrightarrow>
              heartbeat_count (final (heartbeat_fallback pl a (take k fw) fresh)) = int k) \<and>
         (\<forall>ws g. heartbeat_count (final (heartbeat_fallback pl a ws g)) \<le> count a \<and>
              (\<forall>l\<in>set (printed (final (heartbeat_fallback pl a ws g))). number l \<le> count a))"
proof -
  have i: "\<not> setitimer_raises pl (interval a)"
    using assms(1-3) by (simp add: setitimer_raises_def)
  have o: "\<not> wait_raises_overflow pl (interval a)"
    using assms(1,4) by (simp add: wait_raises_overflow_def)
  have f: "\<not> stop_event fresh" by (simp add: fresh_def)
  have p1: "is_exited (posix_loop a pw (start_state fresh)) \<and>
         heartbeat_count (final (posix_loop a pw (start_state fresh))) = count a \<and>
         map number (printed (final (posix_loop a pw (start_state fresh)))) =
           (if silent a then [] else [1..count a])"
    using posix_quiet_run[of pw "start_state fresh" a] assms(5-8) f
    by (simp add: start_state_simps)
  have p2: "\<forall>k. int k \<le> count a \<longrightarrow>
              heartbeat_count (final (posix_loop a (take k pw) (start_state fresh))) = int k"
    using posix_prefix_count[OF assms(5) assms(6) assms(7) f] assms(8) by auto
  have p3: "\<forall>ws g. heartbeat_count (final (posix_loop a ws (start_state g))) \<le> count a \<and>
              (\<forall>l\<in>set (printed (final (posix_loop a ws (start_state g)))). number l \<le> count a)"
    using posix_bound[OF assms(5), of "start_state _"] assms(5)
    by (simp add: start_state_simps)
  have f1: "is_exited (fallback_loop pl a fw (start_state fresh)) \<and>
         heartbeat_count (final (fallback_loop pl a fw (start_state fresh))) = count a \<and>
         map number (printed (final (fallback_loop pl a fw (start_state fresh)))) =
           (if silent a then [] else [1..count a])"
    using fallback_quiet_run[of fw pl a "start_state fresh"] assms(5,9,10) f o
    by (simp add: start_state_simps)
  have f2: "\<forall>k. int k \<le> count a \<longrightarrow>
              heartbeat_count (final (fallback_loop pl a (take k fw) (start_state fresh))) = int k"
    using fallback_prefix_count[OF assms(5) assms(9) o f] assms(10) by auto
  have f3: "\<forall>ws g. heartbeat_count (final (fallback_loop pl a ws (start_state g))) \<le> count a \<and>
              (\<forall>l\<in>set (printed (final (fallback_loop pl a ws (start_state g)))). number l \<le> count a)"
    using fallback_bound[OF assms(5), of "start_state _"] assms(5)
    by (simp add: start_state_simps)
  show ?thesis
    using p1 p2 p3 f1 f2 f3 i
    by (simp add: heartbeat_posix_def heartbeat_fallback_def)
qed

theorem heartbeat_counts_exactly_N_witness:
  "interval demo_args = Finite 1 \<and> (0::rat) < 1 \<and>
   1 \<le> itimer_max cpython64 \<and> 1 \<le> timeout_max cpython64 \<and> 0 < count demo_args \<and>
   list_all quiet_posix demo_posix_wakes \<and>
   list_all (\<lambda>w. during w \<noteq> []) demo_posix_wakes \<and>
   count demo_args \<le> int (length demo_posix_wakes) \<and>
   list_all quiet_fallback demo_fallback_wakes \<and>
   count demo_args \<le> int (length demo_fallback_wakes) \<and>
   is_exited (heartbeat_posix cpython64 demo_args demo_posix_wakes fresh) \<and>
   heartbeat_count (final (heartbeat_posix cpython64 demo_args demo_posix_wakes fresh)) = 3 \<and>
   map number (printed (final (heartbeat_posix cpython64 demo_args demo_posix_wakes fresh))) =
     [1, 2, 3] \<and>
   is_exited (heartbeat_fallback cpython64 demo_args demo_fallback_wakes fresh) \<and>
   heartbeat_count (final (heartbeat_fallback cpython64 demo_args demo_fallback_wakes fresh)) = 3 \<and>
   map number (printed (final (heartbeat_fallback cpython64 demo_args demo_fallback_wakes fresh))) =
     [1, 2, 3]"
proof -
  have h1: "interval demo_args = Finite 1" and h2: "(0::rat) < 1"
    and h3: "1 \<le> itimer_max cpython64" and h4: "1 \<le> timeout_max cpython64"
    and h5: "0 < count demo_args"
    by (simp_all add: demo_args_def cpython64_def)
  have h6: "list_all quiet_posix demo_posix_wakes"
    and h7: "list_all (\<lambda>w. during w \<noteq> []) demo_posix_wakes"
    and h8: "count demo_args \<le> int (length demo_posix_wakes)"
    by (simp_all add: demo_posix_wakes_def quiet_posix_def demo_args_def)
  have h9: "list_all quiet_fallback demo_fallback_wakes"
    and h10: "count demo_args \<le> int (length demo_fallback_wakes)"
    by (simp_all add: demo_fallback_wakes_def quiet_fallback_def demo_args_def)
  have c: "count demo_args = 3" "silent demo_args = False" by (simp_all add: demo_args_def)
  have u: "[1..3::int] = [1, 2, 3]" by (simp add: upto.simps)
  show ?thesis
    using heartbeat_counts_exactly_N[OF h1 h2 h3 h4 h5 h6 h7 h8 h9 h10]
      h1 h2 h3 h4 h5 h6 h7 h8 h9 h10
    by (simp add: c u)
qed

text \<open>
  Claim C1 as it is worded fails. An interval of ten thousand million seconds is
  positive, but \<^verbatim>\<open>setitimer\<close> and \<^verbatim>\<open>Event.wait\<close> raise for it, line 519 catches
  the exception, and no tick is counted in either mode. And at an interval of a tenth
  of a millisecond a timer signal whose handler starts while the loop is inside
  \<^verbatim>\<open>clear()\<close> leaves the loop hung after one tick of twenty thousand.
\<close>

theorem heartbeat_fault_or_hang_counterexample:
  "positive (interval huge_args) \<and> 0 < count huge_args \<and>
   heartbeat_posix cpython64 huge_args demo_posix_wakes fresh = Faulted (start_state fresh) \<and>
   heartbeat_fallback cpython64 huge_args demo_fallback_wakes fresh =
     Faulted (start_state fresh) \<and>
   heartbeat_count (start_state fresh) = 0 \<and>
   positive (interval fast_args) \<and> count fast_args = 20000 \<and>
   \<not> is_exited (heartbeat_posix cpython64 fast_args fast_posix_wakes fresh) \<and>
   heartbeat_count (final (heartbeat_posix cpython64 fast_args fast_posix_wakes fresh)) = 1"
  by (simp add: huge_args_def fast_args_def positive_def heartbeat_posix_def
        heartbeat_fallback_def setitimer_raises_def wait_raises_overflow_def cpython64_def
        demo_posix_wakes_def demo_fallback_wakes_def fast_posix_wakes_def start_state_def
        fresh_def on_posix_signal_def alarm_handler_def count_tick_def limit_reached_def
        on_posix_stuck_def alarm_handler_upto_def Let_def)

lemma fold_term_stop:
  "t \<in> set xs \<Longrightarrow> stop_event (fold on_term_signal xs s)"
  "stop_event s \<Longrightarrow> stop_event (fold on_term_signal xs s)"
  by (induction xs arbitrary: s)
     (auto simp: on_term_signal_def sigterm_handler_def split: term_signal.splits)

lemma fold_posix_stop:
  "TermReq t \<in> set xs \<Longrightarrow> stop_event (fold on_posix_signal xs s)"
  "stop_event s \<Longrightarrow> stop_event (fold on_posix_signal xs s)"
  by (induction xs arbitrary: s)
     (auto simp: on_posix_signal_def on_term_signal_def sigterm_handler_def alarm_handler_def
           split: term_signal.splits posix_signal.splits)

lemma posix_loop_stopped: "stop_event s \<Longrightarrow> posix_loop a ws s = Exited s"
  by (cases ws) simp_all

lemma fallback_loop_stopped: "stop_event s \<Longrightarrow> fallback_loop pl a ws s = Exited s"
  by (cases ws) simp_all







lemma fold_posix_hb:
  "heartbeat_event s \<Longrightarrow> heartbeat_event (fold on_posix_signal xs s)"
  by (induction xs arbitrary: s)
     (auto simp: on_posix_signal_def on_term_signal_def sigterm_handler_def alarm_handler_def
           split: term_signal.splits posix_signal.splits)

lemma posix_one_wake:
  "heartbeat_count s \<le> heartbeat_count (final (posix_loop a [w] s)) \<and>
   heartbeat_count (final (posix_loop a [w] s)) \<le> heartbeat_count s + 1"
  using fold_posix_keeps[of "during w" s]
        fold_posix_keeps[of "late w" "fold on_posix_signal (during w) s"]
        fold_posix_stuck_keeps[of "late_stuck w"
          "fold on_posix_signal (late w) (fold on_posix_signal (during w) s)"]
        fold_posix_stuck_keeps[of "stuck w" "fold on_posix_signal (during w) s"]
  by (simp add: Let_def count_tick_simps)

lemma fallback_one_wake:
  "heartbeat_count s \<le> heartbeat_count (final (fallback_loop pl a [w] s)) \<and>
   heartbeat_count (final (fallback_loop pl a [w] s)) \<le> heartbeat_count s + 1"
  using fold_term_keeps[of "during w" s]
        fold_term_keeps[of "late w" "(fold on_term_signal (during w) s)\<lparr>heartbeat_event := False\<rparr>"]
        fold_term_stuck_keeps[of "stuck w" "fold on_term_signal (during w) s"]
        fold_term_stuck_keeps[of "late_stuck w"
          "fold on_term_signal (late w)
             ((fold on_term_signal (during w) s)\<lparr>heartbeat_event := False\<rparr>)"]
  by (simp add: Let_def count_tick_simps)

lemma posix_cancel_during:
  assumes "TermReq t \<in> set (during w)" and "stuck w = []"
  shows "is_exited (posix_loop a (w # ws) s) \<and>
         heartbeat_count (final (posix_loop a (w # ws) s)) = heartbeat_count s \<and>
         printed (final (posix_loop a (w # ws) s)) = printed s"
proof -
  have "during w \<noteq> []" using assms by auto
  moreover have "stop_event (fold on_posix_signal (during w) s)"
    using assms(1) by (rule fold_posix_stop(1))
  ultimately show ?thesis
    using fold_posix_keeps[of "during w" s] assms(2) by (simp add: Let_def)
qed

lemma fallback_cancel_during:
  assumes "t \<in> set (during w)" and "stuck w = []"
    and "\<not> wait_raises_overflow pl (interval a)"
  shows "is_exited (fallback_loop pl a (w # ws) s) \<and>
         heartbeat_count (final (fallback_loop pl a (w # ws) s)) = heartbeat_count s \<and>
         printed (final (fallback_loop pl a (w # ws) s)) = printed s"
proof -
  have "stop_event (fold on_term_signal (during w) s)"
    using assms(1) by (rule fold_term_stop(1))
  then show ?thesis
    using fold_term_keeps[of "during w" s] assms(2,3) by (simp add: Let_def)
qed

lemma posix_cancel_late:
  assumes "TermReq t \<in> set (late w)" and "list_all (\<lambda>x. x = SIGALRM) (during w)"
    and "during w \<noteq> []" and "stuck w = [] \<and> late_stuck w = []" and "\<not> stop_event s"
  shows "is_exited (posix_loop a (w # ws) s) \<and>
         heartbeat_count (final (posix_loop a (w # ws) s)) = heartbeat_count s + 1"
proof -
  let ?s1 = "fold on_posix_signal (during w) s"
  let ?s2 = "fold on_posix_signal (late w) ?s1"
  let ?s3 = "count_tick a (now w) (?s2\<lparr>heartbeat_event := False\<rparr>)"
  have s1: "\<not> stop_event ?s1" "heartbeat_event ?s1"
    using fold_alarm_flags[OF assms(2), of s] assms(3,5) by simp_all
  have st: "stop_event ?s2" using assms(1) by (rule fold_posix_stop(1))
  have hb: "heartbeat_event ?s2"
    using s1(2) by (rule fold_posix_hb)
  have c: "heartbeat_count ?s3 = heartbeat_count s + 1" "stop_event ?s3"
    using st fold_posix_keeps[of "late w" ?s1] fold_posix_keeps[of "during w" s]
    by (simp_all add: count_tick_simps)
  have "posix_loop a (w # ws) s = Exited ?s3"
    using assms(3,4,5) s1 hb c(2)
    by (simp add: Let_def posix_loop_stopped del: posix_loop.simps add: posix_loop.simps(2))
  then show ?thesis using c(1) by simp
qed


lemma fallback_cancel_late:
  assumes "t \<in> set (late w)" and "during w = []" and "stuck w = [] \<and> late_stuck w = []"
    and "\<not> stop_event s" and "\<not> wait_raises_overflow pl (interval a)"
  shows "is_exited (fallback_loop pl a (w # ws) s) \<and>
         heartbeat_count (final (fallback_loop pl a (w # ws) s)) = heartbeat_count s + 1"
proof -
  let ?s2 = "s\<lparr>heartbeat_event := False\<rparr>"
  let ?s3 = "count_tick a (now w) (fold on_term_signal (late w) ?s2)"
  have st: "stop_event (fold on_term_signal (late w) ?s2)"
    using assms(1) by (rule fold_term_stop(1))
  have c: "heartbeat_count ?s3 = heartbeat_count s + 1" "stop_event ?s3"
    using st fold_term_keeps[of "late w" ?s2] by (simp_all add: count_tick_simps)
  have "fallback_loop pl a (w # ws) s = Exited ?s3"
    using assms(2-5) c(2)
    by (simp add: Let_def fallback_loop_stopped del: fallback_loop.simps
          add: fallback_loop.simps(2))
  then show ?thesis using c(1) by simp
qed





text \<open>
  What the handlers achieve when every one of them returns: both termination signals
  run the same handler, one iteration counts at most one tick, a request handled
  before the test of the stop flag ends the loop with the counter and the output as
  they were, and a request handled after the test ends the loop once the tick of the
  finished wait is counted.
\<close>

lemma cancellation_outside_lock:
  "on_term_signal SIGINT g = sigterm_handler g \<and>
   on_term_signal SIGTERM g = sigterm_handler g \<and>
   on_posix_signal (TermReq SIGINT) g = on_posix_signal (TermReq SIGTERM) g \<and>
   stop_event (sigterm_handler g) \<and> heartbeat_event (sigterm_handler g) \<and>
   heartbeat_count (final (posix_loop a [pw] s)) \<le> heartbeat_count s + 1 \<and>
   heartbeat_count (final (fallback_loop pl a [fw] s)) \<le> heartbeat_count s + 1 \<and>
   (TermReq t \<in> set (during pw) \<and> stuck pw = [] \<longrightarrow>
      is_exited (posix_loop a (pw # pws) s) \<and>
      heartbeat_count (final (posix_loop a (pw # pws) s)) = heartbeat_count s \<and>
      printed (final (posix_loop a (pw # pws) s)) = printed s) \<and>
   (t \<in> set (during fw) \<and> stuck fw = [] \<and> \<not> wait_raises_overflow pl (interval a) \<longrightarrow>
      is_exited (fallback_loop pl a (fw # fws) s) \<and>
      heartbeat_count (final (fallback_loop pl a (fw # fws) s)) = heartbeat_count s \<and>
      printed (final (fallback_loop pl a (fw # fws) s)) = printed s) \<and>
   (TermReq t \<in> set (late pw) \<and> list_all (\<lambda>x. x = SIGALRM) (during pw) \<and>
    during pw \<noteq> [] \<and> (stuck pw = [] \<and> late_stuck pw = []) \<and> \<not> stop_event s \<longrightarrow>
      is_exited (posix_loop a (pw # pws) s) \<and>
      heartbeat_count (final (posix_loop a (pw # pws) s)) = heartbeat_count s + 1) \<and>
   (t \<in> set (late fw) \<and> during fw = [] \<and> (stuck fw = [] \<and> late_stuck fw = []) \<and>
    \<not> stop_event s \<and> \<not> wait_raises_overflow pl (interval a) \<longrightarrow>
      is_exited (fallback_loop pl a (fw # fws) s) \<and>
      heartbeat_count (final (fallback_loop pl a (fw # fws) s)) = heartbeat_count s + 1)"
proof -
  have h: "on_term_signal SIGINT g = sigterm_handler g \<and>
   on_term_signal SIGTERM g = sigterm_handler g \<and>
   on_posix_signal (TermReq SIGINT) g = on_posix_signal (TermReq SIGTERM) g \<and>
   stop_event (sigterm_handler g) \<and> heartbeat_event (sigterm_handler g)"
    by (simp add: on_term_signal_def on_posix_signal_def sigterm_handler_def)
  show ?thesis
    using h posix_one_wake[of s a pw] fallback_one_wake[of s pl a fw]
      posix_cancel_during[of t pw a pws s] fallback_cancel_during[of t fw pl a fws s]
      posix_cancel_late[of t pw s a pws] fallback_cancel_late[of t fw s pl a fws]
    by blast
qed

section \<open>Properties of the audio player\<close>

lemmas comp_defs = ret_def and_then_def try_except_def call_def say_def assign_def

lemma stop_pygame_eq:
  "stop_pygame e st w =
     (if use_pygame (self w) \<and> pygame (self w) \<noteq> None then
        (if music_stop_raises e then (Inr st, w\<lparr>trace := trace w @ [MusicStop]\<rparr>)
         else (Inr True, w\<lparr>trace := trace w @ [MusicStop, MixerQuit, Print StoppedPygame]\<rparr>))
      else (Inr st, w))"
  by (auto simp: stop_pygame_def comp_defs)

lemma stop_proc_eq:
  "stop_proc e st w =
     (case proc (self w) of
        None \<Rightarrow> (Inr st, w)
      | Some p \<Rightarrow>
          if terminate_raises e then
            (Inr (if kill_raises e then st else True),
             w\<lparr>trace := trace w @ [ProcTerminate p, ProcKill p]\<rparr>)
          else if wait_raises e then
            (Inr (if kill_raises e then st else True),
             w\<lparr>trace := trace w @ [ProcTerminate p, ProcWait p 1, ProcKill p]\<rparr>)
          else
            (Inr True,
             w\<lparr>trace := trace w @ [ProcTerminate p, ProcWait p 1, Print TerminatedExternal]\<rparr>))"
  by (auto simp: stop_proc_def comp_defs split: option.splits)

lemma stop_thread_eq:
  "stop_thread e st w =
     (if \<not> st \<and> thread (self w) \<noteq> None \<and> is_alive e
      then (Inr True, w\<lparr>trace := trace w @ [Print ThreadCannotBeStopped]\<rparr>)
      else (Inr st, w))"
  by (auto simp: stop_thread_def comp_defs)

lemma stop_never_raises: "\<exists>b. fst (stop e w) = Inr b"
  by (auto simp: stop_def and_then_def stop_pygame_eq stop_proc_eq stop_thread_eq
           split: option.splits)

lemma stop_frame:
  "self (snd (stop e w)) = self w \<and> globals (snd (stop e w)) = globals w"
  by (auto simp: stop_def and_then_def stop_pygame_eq stop_proc_eq stop_thread_eq
           split: option.splits)

lemma stop_trace_prefix: "\<exists>acts. trace (snd (stop e w)) = trace w @ acts"
  by (auto simp: stop_def and_then_def stop_pygame_eq stop_proc_eq stop_thread_eq
           split: option.splits)


lemma play_pygame_eq:
  "play_pygame e w =
     (if use_pygame (self w) \<and> pygame (self w) \<noteq> None then
        (if music_load_raises e then
           (Inr False, w\<lparr>trace := trace w @ [MusicLoad (path (self w)),
              Print (PygamePlaybackFailed (Exception ''music.load''))]\<rparr>)
         else if music_play_raises e then
           (Inr False, w\<lparr>trace := trace w @ [MusicLoad (path (self w)),
              MusicPlay (if loop (self w) then - 1 else 0),
              Print (PygamePlaybackFailed (Exception ''music.play''))]\<rparr>)
         else
           (Inr True, w\<lparr>trace := trace w @ [MusicLoad (path (self w)),
              MusicPlay (if loop (self w) then - 1 else 0), Print PlayingViaPygame]\<rparr>))
      else (Inr False, w))"
  by (auto simp: play_pygame_def comp_defs)

lemma play_cli_eq:
  "play_cli e w =
     (case backend (self w) of
        None \<Rightarrow> (Inr False, w)
      | Some b \<Rightarrow>
          if b \<in> set cli_players then
            (if popen_raises e (cli_args b (loop (self w)) (path (self w))) then
               (Inr False, w\<lparr>trace := trace w @
                  [Popen (cli_args b (loop (self w)) (path (self w))),
                   Print (PlaybackFailed b (Exception ''Popen''))]\<rparr>)
             else
               (Inr True, w\<lparr>self := (self w)\<lparr>proc := Some (Process (new_pid e))\<rparr>,
                  trace := trace w @
                  [Popen (cli_args b (loop (self w)) (path (self w))),
                   Print (PlayingVia b (new_pid e))]\<rparr>))
          else (Inr False, w))"
  by (auto simp: play_cli_def popen_def comp_defs split: option.splits)

lemma play_opener_eq:
  "play_opener e w =
     (case backend (self w) of
        None \<Rightarrow> (Inr False, w)
      | Some b \<Rightarrow>
          if b \<in> set openers then
            (if b = ''start'' then
               (if popen_shell_raises e (start_command (path (self w))) then
                  (Inr False, w\<lparr>trace := trace w @
                     [PopenShell (start_command (path (self w))),
                      Print (FallbackOpenFailed (Exception ''Popen''))]\<rparr>)
                else
                  (Inr True, w\<lparr>self := (self w)\<lparr>proc := Some (Process (new_pid e))\<rparr>,
                     trace := trace w @
                     [PopenShell (start_command (path (self w))), Print (OpenedWith b)]\<rparr>))
             else
               (if popen_raises e [b, path (self w)] then
                  (Inr False, w\<lparr>trace := trace w @
                     [Popen [b, path (self w)],
                      Print (FallbackOpenFailed (Exception ''Popen''))]\<rparr>)
                else
                  (Inr True, w\<lparr>self := (self w)\<lparr>proc := Some (Process (new_pid e))\<rparr>,
                     trace := trace w @
                     [Popen [b, path (self w)], Print (OpenedWith b)]\<rparr>)))
          else (Inr False, w))"
  by (auto simp: play_opener_def popen_def popen_shell_def comp_defs split: option.splits)

lemma play_playsound_eq:
  "play_playsound e w =
     (if import_playsound_raises e then
        (Inr False, w\<lparr>trace := trace w @ [ImportPlaysound]\<rparr>)
      else if thread_start_raises e then
        (Inr False,
         w\<lparr>self := (self w)\<lparr>thread := Some (Thread (path (self w)) (loop (self w)))\<rparr>,
           trace := trace w @ [ImportPlaysound,
             ThreadStart (Thread (path (self w)) (loop (self w)))]\<rparr>)
      else
        (Inr True,
         w\<lparr>self := (self w)\<lparr>thread := Some (Thread (path (self w)) (loop (self w))),
                             backend := Some ''playsound-thread''\<rparr>,
           trace := trace w @ [ImportPlaysound,
             ThreadStart (Thread (path (self w)) (loop (self w))),
             Print PlayingViaPlaysound]\<rparr>))"
  by (auto simp: play_playsound_def comp_defs)

lemmas stop_eqs = stop_def and_then_def stop_pygame_eq stop_proc_eq stop_thread_eq

lemma stop_terminate_sent:
  "proc (self w) = Some p \<Longrightarrow>
   ProcTerminate p \<in> set (drop (length (trace w)) (trace (snd (stop e w))))"
  by (auto simp: stop_eqs)

lemma init_pygame_host:
  "AudioPlayer_init pygame_host f l =
     \<lparr>path = f, loop = l, backend = Some ''pygame'', proc = None, thread = None,
      use_pygame = True, pygame = Some PygameModule\<rparr>"
  by (simp add: AudioPlayer_init_def pygame_host_def)

lemma init_mpv_host:
  "AudioPlayer_init mpv_host f l =
     \<lparr>path = f, loop = l, backend = Some ''mpv'', proc = None, thread = None,
      use_pygame = False, pygame = None\<rparr>"
  by (simp add: AudioPlayer_init_def mpv_host_def cli_players_def)

lemma init_bare_host:
  "AudioPlayer_init bare_host f l =
     \<lparr>path = f, loop = l, backend = None, proc = None, thread = None,
      use_pygame = False, pygame = None\<rparr>"
  by (simp add: AudioPlayer_init_def bare_host_def cli_players_def)

lemmas play_eqs = play_def and_then_def ret_def say_def play_pygame_eq play_cli_eq
  play_opener_eq play_playsound_eq

lemma play_mpv_fine:
  "play play_fine (on_player (AudioPlayer_init mpv_host ''song.mp3'' False) fresh) =
     (Inr True,
      \<lparr>self = \<lparr>path = ''song.mp3'', loop = False, backend = Some ''mpv'',
                proc = Some (Process 4242), thread = None, use_pygame = False, pygame = None\<rparr>,
       globals = fresh,
       trace = [Popen [''mpv'', ''--no-terminal'', ''--really-quiet'', ''song.mp3''],
                Print (PlayingVia ''mpv'' 4242)]\<rparr>)"
  by (simp add: init_mpv_host on_player_def play_eqs play_fine_def cli_players_def cli_args_def)

lemma play_bare_fine:
  "play play_fine (on_player (AudioPlayer_init bare_host ''song.mp3'' False) fresh) =
     (Inr True,
      \<lparr>self = \<lparr>path = ''song.mp3'', loop = False, backend = Some ''playsound-thread'',
                proc = None, thread = Some (Thread ''song.mp3'' False), use_pygame = False,
                pygame = None\<rparr>,
       globals = fresh,
       trace = [ImportPlaysound, ThreadStart (Thread ''song.mp3'' False),
                Print PlayingViaPlaysound]\<rparr>)"
  by (simp add: init_bare_host on_player_def play_eqs play_fine_def)

text \<open>
  Claim C10. \<^verbatim>\<open>stop()\<close> leaves \<^verbatim>\<open>proc\<close>, \<^verbatim>\<open>_thread\<close>, \<^verbatim>\<open>_use_pygame\<close> and
  \<^verbatim>\<open>pygame\<close> as they were, so a second \<^verbatim>\<open>stop()\<close> drives the same handles: when
  a process handle is held, both the first and the second call send it \<^verbatim>\<open>terminate\<close>,
  whatever the outside answered to the first call.
\<close>

theorem stop_leaves_handles:
  "proc (self (snd (stop e w))) = proc (self w) \<and>
   thread (self (snd (stop e w))) = thread (self w) \<and>
   use_pygame (self (snd (stop e w))) = use_pygame (self w) \<and>
   pygame (self (snd (stop e w))) = pygame (self w) \<and>
   (\<forall>p. proc (self w) = Some p \<longrightarrow>
      ProcTerminate p \<in> set (drop (length (trace w)) (trace (snd (stop e w)))) \<and>
      ProcTerminate p \<in> set (drop (length (trace (snd (stop e w))))
                                (trace (snd (stop e' (snd (stop e w)))))))"
proof -
  have f: "self (snd (stop e w)) = self w" using stop_frame[of e w] by simp
  show ?thesis
    using stop_terminate_sent[of w _ e] stop_terminate_sent[of "snd (stop e w)" _ e'] f
    by simp
qed

theorem stop_leaves_handles_witness:
  "proc (self (snd (play play_fine (on_player (AudioPlayer_init mpv_host ''song.mp3'' False) fresh))))
     = Some (Process 4242) \<and>
   ProcTerminate (Process 4242) \<in> set (drop
     (length (trace (snd (stop stop_fine
        (snd (play play_fine (on_player (AudioPlayer_init mpv_host ''song.mp3'' False) fresh)))))))
     (trace (snd (stop stop_fine (snd (stop stop_fine
        (snd (play play_fine (on_player (AudioPlayer_init mpv_host ''song.mp3'' False) fresh)))))))))"
proof -
  let ?w = "snd (play play_fine (on_player (AudioPlayer_init mpv_host ''song.mp3'' False) fresh))"
  have h: "proc (self ?w) = Some (Process 4242)" by (simp add: play_mpv_fine)
  show ?thesis
    using stop_leaves_handles[of stop_fine ?w stop_fine] h by blast
qed

lemma trace_update_same: "(w\<lparr>trace := x\<rparr> = w) = (x = trace w)"
  by (cases w) simp

lemma stop_is_noop_iff:
  "spec_stop_is_noop e w \<longleftrightarrow>
     \<not> (use_pygame (self w) \<and> pygame (self w) \<noteq> None) \<and> proc (self w) = None \<and>
     (thread (self w) = None \<or> \<not> is_alive e)"
  by (auto simp: spec_stop_is_noop_def stop_eqs trace_update_same split: option.splits)

lemma stop_noop_False: "spec_stop_is_noop e w \<Longrightarrow> stop e w = (Inr False, w)"
  by (auto simp: stop_is_noop_iff stop_eqs)

lemma stop_depends_on_self:
  "self w1 = self w2 \<Longrightarrow>
   fst (stop e w1) = fst (stop e w2) \<and>
   drop (length (trace w1)) (trace (snd (stop e w1))) =
     drop (length (trace w2)) (trace (snd (stop e w2)))"
  by (auto simp: stop_eqs split: option.splits)

text \<open>
  Claim C4 as it is worded fails. \<^verbatim>\<open>stop()\<close> on a player that was constructed on a
  host with pygame and never played is not a no-op (it stops and quits the mixer), and
  a second \<^verbatim>\<open>stop()\<close> after a command-line player was started and stopped is not a
  no-op either (it sends \<^verbatim>\<open>terminate\<close> again). Nor is the boolean the same both
  times: on the pygame player the first \<^verbatim>\<open>stop()\<close> returns \<open>True\<close>, and the second,
  whose \<^verbatim>\<open>music.stop()\<close> raises on the mixer that the first has quit, returns
  \<open>False\<close>.
\<close>

theorem stop_not_noop_counterexample:
  "\<not> spec_stop_is_noop stop_fine (on_player (AudioPlayer_init pygame_host ''song.mp3'' False) fresh) \<and>
   \<not> spec_stop_is_noop stop_fine (snd (stop stop_fine
        (snd (play play_fine (on_player (AudioPlayer_init mpv_host ''song.mp3'' False) fresh))))) \<and>
   fst (stop stop_fine (on_player (AudioPlayer_init pygame_host ''song.mp3'' False) fresh)) =
     Inr True \<and>
   fst (stop stop_mixer_gone (snd (stop stop_fine
        (on_player (AudioPlayer_init pygame_host ''song.mp3'' False) fresh)))) = Inr False"
  unfolding spec_stop_is_noop_def play_mpv_fine init_pygame_host
  by (simp add: on_player_def stop_eqs stop_fine_def stop_mixer_gone_def)

text \<open>
  Claim C4, amended. \<^verbatim>\<open>stop()\<close> never raises and returns a boolean, and it changes
  no field of the player. It is a no-op (no call is made and nothing is printed)
  exactly when the player holds no handle: the mixer is not in use, there is no
  process, and there is no live thread; it then returns \<open>False\<close>. A second
  \<^verbatim>\<open>stop()\<close> does what a first \<^verbatim>\<open>stop()\<close> would do on the answers that the outside
  gives the second time: it makes the same calls on the same handles and returns the
  same boolean as that one.
\<close>

theorem stop_never_raises_and_repeats:
  "(\<exists>b. fst (stop e w) = Inr b) \<and>
   self (snd (stop e w)) = self w \<and>
   (spec_stop_is_noop e w \<longleftrightarrow>
      \<not> (use_pygame (self w) \<and> pygame (self w) \<noteq> None) \<and> proc (self w) = None \<and>
      (thread (self w) = None \<or> \<not> is_alive e)) \<and>
   (spec_stop_is_noop e w \<longrightarrow> stop e w = (Inr False, w)) \<and>
   fst (stop e' (snd (stop e w))) = fst (stop e' w) \<and>
   drop (length (trace (snd (stop e w)))) (trace (snd (stop e' (snd (stop e w))))) =
     drop (length (trace w)) (trace (snd (stop e' w)))"
proof -
  have f: "self (snd (stop e w)) = self w" using stop_frame[of e w] by simp
  show ?thesis
    using stop_never_raises[of e w] f stop_is_noop_iff[of e w] stop_noop_False[of e w]
      stop_depends_on_self[OF f, of e']
    by blast
qed

theorem stop_never_raises_and_repeats_witness:
  "spec_stop_is_noop stop_fine (on_player (AudioPlayer_init bare_host ''song.mp3'' False) fresh) \<and>
   stop stop_fine (on_player (AudioPlayer_init bare_host ''song.mp3'' False) fresh) =
     (Inr False, on_player (AudioPlayer_init bare_host ''song.mp3'' False) fresh) \<and>
   fst (stop stop_mixer_gone (snd (stop stop_fine
        (on_player (AudioPlayer_init pygame_host ''song.mp3'' False) fresh)))) = Inr False \<and>
   drop (length (trace (snd (stop stop_fine
        (snd (play play_fine (on_player (AudioPlayer_init mpv_host ''song.mp3'' False) fresh)))))))
     (trace (snd (stop stop_slow (snd (stop stop_fine
        (snd (play play_fine (on_player (AudioPlayer_init mpv_host ''song.mp3'' False) fresh)))))))) =
     [ProcTerminate (Process 4242), ProcWait (Process 4242) 1, ProcKill (Process 4242)]"
proof -
  let ?b = "on_player (AudioPlayer_init bare_host ''song.mp3'' False) fresh"
  let ?p = "on_player (AudioPlayer_init pygame_host ''song.mp3'' False) fresh"
  let ?m = "snd (play play_fine (on_player (AudioPlayer_init mpv_host ''song.mp3'' False) fresh))"
  have n: "\<not> (use_pygame (self ?b) \<and> pygame (self ?b) \<noteq> None) \<and> proc (self ?b) = None \<and>
      (thread (self ?b) = None \<or> \<not> is_alive stop_fine)"
    by (simp add: init_bare_host on_player_def)
  have b: "spec_stop_is_noop stop_fine ?b \<and> stop stop_fine ?b = (Inr False, ?b)"
    using stop_never_raises_and_repeats[of stop_fine ?b stop_fine] n by blast
  have g: "fst (stop stop_mixer_gone ?p) = Inr False"
    unfolding init_pygame_host
    by (simp add: on_player_def stop_eqs stop_mixer_gone_def)
  have p: "fst (stop stop_mixer_gone (snd (stop stop_fine ?p))) = Inr False"
    using stop_never_raises_and_repeats[of stop_fine ?p stop_mixer_gone] g by simp
  have s: "drop (length (trace ?m)) (trace (snd (stop stop_slow ?m))) =
      [ProcTerminate (Process 4242), ProcWait (Process 4242) 1, ProcKill (Process 4242)]"
    unfolding play_mpv_fine by (simp add: stop_eqs stop_slow_def)
  have m: "drop (length (trace (snd (stop stop_fine ?m))))
      (trace (snd (stop stop_slow (snd (stop stop_fine ?m))))) =
      [ProcTerminate (Process 4242), ProcWait (Process 4242) 1, ProcKill (Process 4242)]"
    using stop_never_raises_and_repeats[of stop_fine ?m stop_slow] s by simp
  show ?thesis using b p m by blast
qed

text \<open>
  Claim C6. For a player without the mixer that holds a process, the calls of
  \<^verbatim>\<open>stop()\<close> start with \<^verbatim>\<open>terminate\<close>; when that returns, \<^verbatim>\<open>wait(timeout=1)\<close>
  follows; when the wait raises (the process is still running after the second),
  \<^verbatim>\<open>kill\<close> follows; when terminate and wait both return there is no kill; and
  \<^verbatim>\<open>stop()\<close> returns \<open>True\<close> when terminate and wait both returned or when the kill
  returned.
\<close>

theorem stop_terminate_wait_kill:
  assumes "proc (self w) = Some p" and "\<not> use_pygame (self w)"
  shows "take 1 (drop (length (trace w)) (trace (snd (stop e w)))) = [ProcTerminate p] \<and>
    (\<not> terminate_raises e \<longrightarrow>
       take 2 (drop (length (trace w)) (trace (snd (stop e w)))) =
         [ProcTerminate p, ProcWait p 1]) \<and>
    (\<not> terminate_raises e \<and> wait_raises e \<longrightarrow>
       take 3 (drop (length (trace w)) (trace (snd (stop e w)))) =
         [ProcTerminate p, ProcWait p 1, ProcKill p]) \<and>
    (\<not> terminate_raises e \<and> \<not> wait_raises e \<longrightarrow>
       ProcKill p \<notin> set (drop (length (trace w)) (trace (snd (stop e w))))) \<and>
    ((\<not> terminate_raises e \<and> \<not> wait_raises e) \<or> \<not> kill_raises e \<longrightarrow>
       fst (stop e w) = Inr True)"
  using assms by (auto simp: stop_eqs)

theorem stop_terminate_wait_kill_witness:
  "proc (self (snd (play play_fine (on_player (AudioPlayer_init mpv_host ''song.mp3'' False) fresh))))
     = Some (Process 4242) \<and>
   \<not> use_pygame (self (snd (play play_fine
        (on_player (AudioPlayer_init mpv_host ''song.mp3'' False) fresh)))) \<and>
   \<not> terminate_raises stop_slow \<and> wait_raises stop_slow \<and> \<not> kill_raises stop_slow \<and>
   take 3 (drop (length (trace (snd (play play_fine
        (on_player (AudioPlayer_init mpv_host ''song.mp3'' False) fresh)))))
     (trace (snd (stop stop_slow (snd (play play_fine
        (on_player (AudioPlayer_init mpv_host ''song.mp3'' False) fresh))))))) =
     [ProcTerminate (Process 4242), ProcWait (Process 4242) 1, ProcKill (Process 4242)] \<and>
   fst (stop stop_slow (snd (play play_fine
        (on_player (AudioPlayer_init mpv_host ''song.mp3'' False) fresh)))) = Inr True"
proof -
  let ?w = "snd (play play_fine (on_player (AudioPlayer_init mpv_host ''song.mp3'' False) fresh))"
  have h: "proc (self ?w) = Some (Process 4242)" "\<not> use_pygame (self ?w)"
    by (simp_all add: play_mpv_fine)
  have e: "\<not> terminate_raises stop_slow" "wait_raises stop_slow" "\<not> kill_raises stop_slow"
    by (simp_all add: stop_slow_def)
  show ?thesis
    using stop_terminate_wait_kill[OF h, of stop_slow] h e by blast
qed



lemma find_SomeD: "find P xs = Some x \<Longrightarrow> x \<in> set xs \<and> P x"
  by (induction xs) (auto split: if_splits)

lemma init_flat:
  "AudioPlayer_init h f l =
     \<lparr>path = f, loop = l,
      backend = (if pygame_usable h then Some ''pygame''
                 else case find (which h) cli_players of
                        Some c \<Rightarrow> Some c
                      | None \<Rightarrow>
                          if system h = ''Windows'' then Some ''start''
                          else if which h ''xdg-open'' then Some ''xdg-open''
                          else if which h ''open'' then Some ''open''
                          else None),
      proc = None, thread = None,
      use_pygame = pygame_usable h,
      pygame = (if pygame_usable h then Some PygameModule else None)\<rparr>"
  by (auto simp: AudioPlayer_init_def Let_def split: option.splits)

lemma own_candidates_init:
  "own_candidates (AudioPlayer_init h f l) =
     take 1 (butlast (spec_candidates h)) @ [''playsound-thread'']"
  by (auto simp: init_flat own_candidates_def spec_candidates_def split: option.splits)

lemma attempts_of_simps:
  "attempts_of [] = []"
  "attempts_of (a # as) = (case attempt_of a of None \<Rightarrow> attempts_of as | Some c \<Rightarrow> c # attempts_of as)"
  by (simp_all add: attempts_of_def map_filter_simps split: option.splits)

lemma play_own_pygame:
  assumes "is_file e (path p)" "use_pygame p" "pygame p \<noteq> None" "backend p = Some ''pygame''"
  shows "attempts_of (trace (snd (play e (on_player p g)))) =
           chain_attempts (attempt_raises e p) (own_candidates p) \<and>
         fst (play e (on_player p g)) =
           Inr (\<exists>c\<in>set (own_candidates p). \<not> attempt_raises e p c)"
  using assms
  by (auto simp: on_player_def play_eqs own_candidates_def attempt_raises_def attempts_of_simps
        cli_players_def openers_def)

lemma play_own_none:
  assumes "is_file e (path p)" "\<not> use_pygame p" "backend p = None"
  shows "attempts_of (trace (snd (play e (on_player p g)))) =
           chain_attempts (attempt_raises e p) (own_candidates p) \<and>
         fst (play e (on_player p g)) =
           Inr (\<exists>c\<in>set (own_candidates p). \<not> attempt_raises e p c)"
  using assms
  by (auto simp: on_player_def play_eqs own_candidates_def attempt_raises_def attempts_of_simps
        cli_players_def openers_def)


lemma attempt_raises_pygame:
  "attempt_raises e p ''pygame'' = (music_load_raises e \<or> music_play_raises e)"
  by (simp add: attempt_raises_def)

lemma attempt_raises_playsound:
  "attempt_raises e p ''playsound-thread'' =
     (import_playsound_raises e \<or> thread_start_raises e)"
  by (simp add: attempt_raises_def cli_players_def openers_def)

lemma attempt_raises_cli:
  "c \<in> set cli_players \<Longrightarrow>
   attempt_raises e p c = popen_raises e (cli_args c (loop p) (path p))"
  by (auto simp: attempt_raises_def cli_players_def)

lemma attempt_raises_opener:
  "c \<in> set openers \<Longrightarrow>
   attempt_raises e p c =
     (if c = ''start'' then popen_shell_raises e (start_command (path p))
      else popen_raises e [c, path p])"
  by (auto simp: attempt_raises_def cli_players_def openers_def)

lemma cli_not_opener: "c \<in> set cli_players \<Longrightarrow> c \<notin> set openers"
  by (auto simp: cli_players_def openers_def)

lemma cli_args_head: "c \<in> set cli_players \<Longrightarrow> \<exists>rest. cli_args c l f = c # rest"
  by (auto simp: cli_players_def cli_args_def)


lemma play_own_cli:
  assumes "is_file e (path p)" "\<not> use_pygame p" "backend p = Some c" "c \<in> set cli_players"
  shows "attempts_of (trace (snd (play e (on_player p g)))) =
           chain_attempts (attempt_raises e p) (own_candidates p) \<and>
         fst (play e (on_player p g)) =
           Inr (\<exists>c\<in>set (own_candidates p). \<not> attempt_raises e p c)"
proof -
  obtain rest where r: "cli_args c (loop p) (path p) = c # rest"
    using cli_args_head[OF assms(4)] by blast
  have ar: "attempt_raises e p c = popen_raises e (c # rest)"
    using attempt_raises_cli[OF assms(4), of e p] r by simp
  have no: "c \<notin> set openers" using assms(4) by (rule cli_not_opener)
  have own: "own_candidates p = [c, ''playsound-thread'']"
    using assms(3) by (simp add: own_candidates_def)
  show ?thesis
  proof (cases "popen_raises e (c # rest)")
    case False
    then show ?thesis
      using assms no
      by (simp add: on_player_def play_eqs r own ar attempts_of_simps)
  next
    case True
    then show ?thesis
      using assms no
      by (simp add: on_player_def play_eqs r own ar attempts_of_simps attempt_raises_playsound)
  qed
qed


lemma opener_not_cli: "c \<in> set openers \<Longrightarrow> c \<notin> set cli_players"
  by (auto simp: cli_players_def openers_def)

lemma play_own_opener:
  assumes "is_file e (path p)" "\<not> use_pygame p" "backend p = Some c" "c \<in> set openers"
  shows "attempts_of (trace (snd (play e (on_player p g)))) =
           chain_attempts (attempt_raises e p) (own_candidates p) \<and>
         fst (play e (on_player p g)) =
           Inr (\<exists>c\<in>set (own_candidates p). \<not> attempt_raises e p c)"
proof -
  have no: "c \<notin> set cli_players" using assms(4) by (rule opener_not_cli)
  have own: "own_candidates p = [c, ''playsound-thread'']"
    using assms(3) by (simp add: own_candidates_def)
  have ar1: "attempt_raises e p ''start'' = popen_shell_raises e (start_command (path p))"
    by (simp add: attempt_raises_def cli_players_def)
  show ?thesis
  proof (cases "c = ''start''")
    case True
    then show ?thesis
      using assms no
      by (cases "popen_shell_raises e (start_command (path p))")
         (simp_all add: on_player_def play_eqs own ar1 attempts_of_simps attempt_raises_playsound)
  next
    case False
    have ar2: "attempt_raises e p c = popen_raises e [c, path p]"
      using attempt_raises_opener[OF assms(4), of e p] False by simp
    show ?thesis
      using assms no False
      by (cases "popen_raises e [c, path p]")
         (simp_all add: on_player_def play_eqs own ar2 attempts_of_simps attempt_raises_playsound)
  qed
qed

text \<open>
  Claim C3, amended. The constructor picks one backend, the first candidate of the
  priority order (pygame, else the first command-line player present, else the file
  opener), or none. On an existing file \<^verbatim>\<open>play()\<close> attempts that backend and, when
  the attempt raises (or there is none), the playsound thread, and nothing else; it
  returns \<open>True\<close> exactly when one of these attempts does not raise.
\<close>

theorem play_tries_own_backend_then_playsound:
  assumes "is_file e f"
  shows "own_candidates (AudioPlayer_init h f l) =
           take 1 (butlast (spec_candidates h)) @ [''playsound-thread''] \<and>
         attempts_of (trace (snd (play e (on_player (AudioPlayer_init h f l) g)))) =
           chain_attempts (attempt_raises e (AudioPlayer_init h f l))
             (own_candidates (AudioPlayer_init h f l)) \<and>
         fst (play e (on_player (AudioPlayer_init h f l) g)) =
           Inr (\<exists>c\<in>set (own_candidates (AudioPlayer_init h f l)).
                  \<not> attempt_raises e (AudioPlayer_init h f l) c)"
proof -
  let ?p = "AudioPlayer_init h f l"
  have pf: "is_file e (path ?p)" using assms by (simp add: init_flat)
  have main: "attempts_of (trace (snd (play e (on_player ?p g)))) =
           chain_attempts (attempt_raises e ?p) (own_candidates ?p) \<and>
         fst (play e (on_player ?p g)) =
           Inr (\<exists>c\<in>set (own_candidates ?p). \<not> attempt_raises e ?p c)"
  proof (cases "pygame_usable h")
    case True
    then have "use_pygame ?p" "pygame ?p \<noteq> None" "backend ?p = Some ''pygame''"
      by (simp_all add: init_flat)
    then show ?thesis using pf by (intro play_own_pygame)
  next
    case False
    then have u: "\<not> use_pygame ?p" by (simp add: init_flat)
    show ?thesis
    proof (cases "find (which h) cli_players")
      case (Some c)
      then have "backend ?p = Some c" "c \<in> set cli_players"
        using False find_SomeD[of "which h" cli_players c] by (simp_all add: init_flat)
      then show ?thesis using pf u by (intro play_own_cli)
    next
      case None
      then have b: "backend ?p =
          (if system h = ''Windows'' then Some ''start''
           else if which h ''xdg-open'' then Some ''xdg-open''
           else if which h ''open'' then Some ''open'' else None)"
        using False by (simp add: init_flat)
      show ?thesis
      proof (cases "backend ?p")
        case None
        then show ?thesis using pf u by (intro play_own_none)
      next
        case (Some c)
        then have "c \<in> set openers"
          using b by (auto simp: openers_def split: if_splits)
        then show ?thesis using pf u Some by (intro play_own_opener)
      qed
    qed
  qed
  show ?thesis using main own_candidates_init[of h f l] by simp
qed

lemma play_pygame_result:
  "\<exists>w'. play_pygame e w =
          (Inr (use_pygame (self w) \<and> pygame (self w) \<noteq> None \<and>
                \<not> music_load_raises e \<and> \<not> music_play_raises e), w') \<and>
        self w' = self w"
  by (auto simp: play_pygame_eq)

lemma play_cli_result:
  "\<exists>w'. play_cli e w =
          (Inr (\<exists>b. backend (self w) = Some b \<and> b \<in> set cli_players \<and>
                    \<not> popen_raises e (cli_args b (loop (self w)) (path (self w)))), w') \<and>
        backend (self w') = backend (self w) \<and> path (self w') = path (self w) \<and>
        loop (self w') = loop (self w)"
  by (auto simp: play_cli_eq split: option.splits)

lemma play_opener_result:
  "\<exists>w'. play_opener e w =
          (Inr (\<exists>b. backend (self w) = Some b \<and> b \<in> set openers \<and>
                    \<not> (if b = ''start'' then popen_shell_raises e (start_command (path (self w)))
                        else popen_raises e [b, path (self w)])), w') \<and>
        backend (self w') = backend (self w)"
  by (auto simp: play_opener_eq split: option.splits)

lemma play_playsound_result:
  "\<exists>w'. play_playsound e w =
          (Inr (\<not> import_playsound_raises e \<and> \<not> thread_start_raises e), w') \<and>
        backend (self w') =
          (if \<not> import_playsound_raises e \<and> \<not> thread_start_raises e
           then Some ''playsound-thread'' else backend (self w))"
  by (auto simp: play_playsound_eq)

lemma play_backend:
  "backend (self (snd (play e w))) =
     (if is_file e (path (self w)) \<and>
         \<not> (use_pygame (self w) \<and> pygame (self w) \<noteq> None \<and>
            \<not> music_load_raises e \<and> \<not> music_play_raises e) \<and>
         \<not> (\<exists>b. backend (self w) = Some b \<and> b \<in> set cli_players \<and>
                \<not> popen_raises e (cli_args b (loop (self w)) (path (self w)))) \<and>
         \<not> (\<exists>b. backend (self w) = Some b \<and> b \<in> set openers \<and>
                \<not> (if b = ''start'' then popen_shell_raises e (start_command (path (self w)))
                    else popen_raises e [b, path (self w)])) \<and>
         \<not> import_playsound_raises e \<and> \<not> thread_start_raises e
      then Some ''playsound-thread'' else backend (self w)) \<and>
   fst (play e w) =
     Inr (is_file e (path (self w)) \<and>
          ((use_pygame (self w) \<and> pygame (self w) \<noteq> None \<and>
            \<not> music_load_raises e \<and> \<not> music_play_raises e) \<or>
           (\<exists>b. backend (self w) = Some b \<and> b \<in> set cli_players \<and>
                \<not> popen_raises e (cli_args b (loop (self w)) (path (self w)))) \<or>
           (\<exists>b. backend (self w) = Some b \<and> b \<in> set openers \<and>
                \<not> (if b = ''start'' then popen_shell_raises e (start_command (path (self w)))
                    else popen_raises e [b, path (self w)])) \<or>
           (\<not> import_playsound_raises e \<and> \<not> thread_start_raises e)))"
proof (cases "is_file e (path (self w))")
  case False
  then show ?thesis by (simp add: play_def and_then_def say_def ret_def)
next
  case True
  let ?r1 = "use_pygame (self w) \<and> pygame (self w) \<noteq> None \<and>
                \<not> music_load_raises e \<and> \<not> music_play_raises e"
  let ?r2 = "\<exists>b. backend (self w) = Some b \<and> b \<in> set cli_players \<and>
                    \<not> popen_raises e (cli_args b (loop (self w)) (path (self w)))"
  let ?r3 = "\<exists>b. backend (self w) = Some b \<and> b \<in> set openers \<and>
                    \<not> (if b = ''start'' then popen_shell_raises e (start_command (path (self w)))
                        else popen_raises e [b, path (self w)])"
  let ?r4 = "\<not> import_playsound_raises e \<and> \<not> thread_start_raises e"
  obtain r1 w1 where b1: "play_pygame e w = (Inr r1, w1)" "self w1 = self w" "r1 = ?r1"
    using play_pygame_result[of e w] by blast
  obtain r2 w2 where b2: "play_cli e w1 = (Inr r2, w2)" "backend (self w2) = backend (self w)"
    "path (self w2) = path (self w)" "r2 = ?r2"
    using play_cli_result[of e w1] b1(2) by auto
  obtain r3 w3 where b3: "play_opener e w2 = (Inr r3, w3)" "backend (self w3) = backend (self w)"
    "r3 = ?r3"
    using play_opener_result[of e w2] b2(2,3) by auto
  obtain r4 w4 where b4: "play_playsound e w3 = (Inr r4, w4)"
    "backend (self w4) = (if r4 then Some ''playsound-thread'' else backend (self w))"
    "r4 = ?r4"
    using play_playsound_result[of e w3] b3(2) by auto
  have p: "play e w =
      (if r1 then (Inr True, w1) else if r2 then (Inr True, w2)
       else if r3 then (Inr True, w3)
       else if r4 then (Inr True, w4)
       else (Inr False, w4\<lparr>trace := trace w4 @ [Print NoAudioBackend]\<rparr>))"
    using True by (simp add: play_def and_then_def b1(1) b2(1) b3(1) b4(1) ret_def say_def)
  have q: "backend (self (snd (play e w))) =
      (if \<not> r1 \<and> \<not> r2 \<and> \<not> r3 \<and> r4 then Some ''playsound-thread'' else backend (self w)) \<and>
      fst (play e w) = Inr (r1 \<or> r2 \<or> r3 \<or> r4)"
    unfolding p using b1(2) b2(2) b3(2) b4(2) by simp
  show ?thesis
    using q True unfolding b1(3) b2(4) b3(3) b4(3) by simp
qed

lemma init_pygame_mpg123_host:
  "AudioPlayer_init pygame_mpg123_host f l =
     \<lparr>path = f, loop = l, backend = Some ''pygame'', proc = None, thread = None,
      use_pygame = True, pygame = Some PygameModule\<rparr>"
  by (simp add: init_flat pygame_mpg123_host_def)

lemma spec_candidates_pygame_mpg123:
  "spec_candidates pygame_mpg123_host = [''pygame'', ''mpg123'', ''playsound-thread'']"
  by (simp add: spec_candidates_def pygame_mpg123_host_def cli_players_def)

lemma play_pygame_broken:
  "play play_mixer_broken (on_player (AudioPlayer_init pygame_host ''song.mp3'' False) fresh) =
     (Inr True,
      \<lparr>self = \<lparr>path = ''song.mp3'', loop = False, backend = Some ''playsound-thread'',
                proc = None, thread = Some (Thread ''song.mp3'' False), use_pygame = True,
                pygame = Some PygameModule\<rparr>,
       globals = fresh,
       trace = [MusicLoad ''song.mp3'', Print (PygamePlaybackFailed (Exception ''music.load'')),
                ImportPlaysound, ThreadStart (Thread ''song.mp3'' False),
                Print PlayingViaPlaysound]\<rparr>)"
  by (simp add: init_pygame_host on_player_def play_eqs play_mixer_broken_def cli_players_def
        openers_def)

text \<open>
  Claim C7 as it is worded fails: for a session started through the playsound thread,
  \<^verbatim>\<open>stop()\<close> returns \<open>False\<close> when the thread is no longer alive, and it leaves
  \<^verbatim>\<open>stop_event\<close> unset even when the thread is alive.
\<close>

theorem stop_playsound_counterexample:
  "backend (self (snd (play play_fine
      (on_player (AudioPlayer_init bare_host ''song.mp3'' False) fresh)))) =
     Some ''playsound-thread'' \<and>
   fst (stop stop_fine (snd (play play_fine
      (on_player (AudioPlayer_init bare_host ''song.mp3'' False) fresh)))) = Inr False \<and>
   \<not> stop_event (globals (snd (stop stop_alive (snd (play play_fine
      (on_player (AudioPlayer_init bare_host ''song.mp3'' False) fresh))))))"
  by (simp add: play_bare_fine stop_eqs stop_fine_def stop_alive_def fresh_simps)

lemma stop_result:
  "fst (stop e w) =
     Inr ((use_pygame (self w) \<and> pygame (self w) \<noteq> None \<and> \<not> music_stop_raises e) \<or>
          (proc (self w) \<noteq> None \<and>
             (\<not> terminate_raises e \<and> \<not> wait_raises e \<or> \<not> kill_raises e)) \<or>
          (thread (self w) \<noteq> None \<and> is_alive e))"
  by (auto simp: stop_eqs split: option.splits)

lemma stop_thread_notice:
  "Print ThreadCannotBeStopped \<in> set (drop (length (trace w)) (trace (snd (stop e w)))) \<longleftrightarrow>
     \<not> (use_pygame (self w) \<and> pygame (self w) \<noteq> None \<and> \<not> music_stop_raises e) \<and>
     \<not> (proc (self w) \<noteq> None \<and>
          (\<not> terminate_raises e \<and> \<not> wait_raises e \<or> \<not> kill_raises e)) \<and>
     thread (self w) \<noteq> None \<and> is_alive e"
  by (auto simp: stop_eqs split: option.splits)

lemma stop_thread_only:
  "\<not> use_pygame (self w) \<Longrightarrow> proc (self w) = None \<Longrightarrow> thread (self w) \<noteq> None \<Longrightarrow>
   stop e w =
     (Inr (is_alive e),
      w\<lparr>trace := trace w @ (if is_alive e then [Print ThreadCannotBeStopped] else [])\<rparr>)"
  by (auto simp: stop_eqs)

text \<open>
  Claim C7, amended. For every session that holds a playsound thread, \<^verbatim>\<open>stop()\<close>
  leaves both events as they were and changes no field. It returns \<open>True\<close> exactly when
  it has stopped the mixer, or it has stopped a process, or the thread is alive; it
  prints its notice about the thread exactly when the thread is alive and neither the
  mixer nor a process was stopped. For a session without mixer and without process
  this is all it does: it returns whether the thread is alive.
\<close>

theorem stop_playsound_thread:
  assumes "thread (self w) \<noteq> None"
  shows "globals (snd (stop e w)) = globals w \<and>
         self (snd (stop e w)) = self w \<and>
         fst (stop e w) =
           Inr ((use_pygame (self w) \<and> pygame (self w) \<noteq> None \<and> \<not> music_stop_raises e) \<or>
                (proc (self w) \<noteq> None \<and>
                   (\<not> terminate_raises e \<and> \<not> wait_raises e \<or> \<not> kill_raises e)) \<or>
                is_alive e) \<and>
         (Print ThreadCannotBeStopped \<in> set (drop (length (trace w)) (trace (snd (stop e w)))) \<longleftrightarrow>
            \<not> (use_pygame (self w) \<and> pygame (self w) \<noteq> None \<and> \<not> music_stop_raises e) \<and>
            \<not> (proc (self w) \<noteq> None \<and>
                 (\<not> terminate_raises e \<and> \<not> wait_raises e \<or> \<not> kill_raises e)) \<and>
            is_alive e) \<and>
         (\<not> use_pygame (self w) \<and> proc (self w) = None \<longrightarrow>
            stop e w =
              (Inr (is_alive e),
               w\<lparr>trace := trace w @ (if is_alive e then [Print ThreadCannotBeStopped] else [])\<rparr>))"
  using assms stop_frame[of e w] stop_result[of e w] stop_thread_notice[of w e]
    stop_thread_only[of w e]
  by simp

theorem stop_playsound_thread_witness:
  "thread (self (snd (play play_fine
      (on_player (AudioPlayer_init bare_host ''song.mp3'' False) fresh)))) \<noteq> None \<and>
   fst (stop stop_alive (snd (play play_fine
      (on_player (AudioPlayer_init bare_host ''song.mp3'' False) fresh)))) = Inr True \<and>
   fst (stop stop_fine (snd (play play_fine
      (on_player (AudioPlayer_init bare_host ''song.mp3'' False) fresh)))) = Inr False \<and>
   globals (snd (stop stop_alive (snd (play play_fine
      (on_player (AudioPlayer_init bare_host ''song.mp3'' False) fresh))))) = fresh \<and>
   thread (self (snd (play play_mixer_broken
      (on_player (AudioPlayer_init pygame_host ''song.mp3'' False) fresh)))) \<noteq> None \<and>
   fst (stop stop_fine (snd (play play_mixer_broken
      (on_player (AudioPlayer_init pygame_host ''song.mp3'' False) fresh)))) = Inr True \<and>
   Print ThreadCannotBeStopped \<notin> set (drop
     (length (trace (snd (play play_mixer_broken
        (on_player (AudioPlayer_init pygame_host ''song.mp3'' False) fresh)))))
     (trace (snd (stop stop_alive (snd (play play_mixer_broken
        (on_player (AudioPlayer_init pygame_host ''song.mp3'' False) fresh)))))))"
proof -
  let ?w = "snd (play play_fine (on_player (AudioPlayer_init bare_host ''song.mp3'' False) fresh))"
  let ?v = "snd (play play_mixer_broken
      (on_player (AudioPlayer_init pygame_host ''song.mp3'' False) fresh))"
  have h: "thread (self ?w) \<noteq> None" "\<not> use_pygame (self ?w)" "proc (self ?w) = None"
    "globals ?w = fresh"
    by (simp_all add: play_bare_fine)
  have k: "thread (self ?v) \<noteq> None" "use_pygame (self ?v)" "pygame (self ?v) \<noteq> None"
    "proc (self ?v) = None"
    by (simp_all add: play_pygame_broken)
  have e: "is_alive stop_alive" "\<not> is_alive stop_fine" "\<not> music_stop_raises stop_fine"
    "\<not> music_stop_raises stop_alive"
    by (simp_all add: stop_alive_def stop_fine_def)
  show ?thesis
    using stop_playsound_thread[OF h(1), of stop_alive] stop_playsound_thread[OF h(1), of stop_fine]
      stop_playsound_thread[OF k(1), of stop_fine] stop_playsound_thread[OF k(1), of stop_alive]
      h k e
    by simp
qed

text \<open>
  Claim C3 as it is worded fails. On a host with pygame and mpg123, when the mixer
  raises and playsound cannot be imported, the chain of the specification would go on
  to mpg123, which does not raise; \<^verbatim>\<open>play()\<close> goes from pygame straight to playsound
  and returns \<open>False\<close>.
\<close>

theorem play_skips_candidates_counterexample:
  "spec_candidates pygame_mpg123_host = [''pygame'', ''mpg123'', ''playsound-thread''] \<and>
   chain_attempts
     (attempt_raises play_mixer_only_broken (AudioPlayer_init pygame_mpg123_host ''song.mp3'' False))
     (spec_candidates pygame_mpg123_host) = [''pygame'', ''mpg123''] \<and>
   attempts_of (trace (snd (play play_mixer_only_broken
     (on_player (AudioPlayer_init pygame_mpg123_host ''song.mp3'' False) fresh)))) =
     [''pygame'', ''playsound-thread''] \<and>
   fst (play play_mixer_only_broken
     (on_player (AudioPlayer_init pygame_mpg123_host ''song.mp3'' False) fresh)) = Inr False \<and>
   \<not> attempt_raises play_mixer_only_broken
       (AudioPlayer_init pygame_mpg123_host ''song.mp3'' False) ''mpg123''"
proof -
  let ?p = "AudioPlayer_init pygame_mpg123_host ''song.mp3'' False"
  let ?e = "play_mixer_only_broken"
  have p: "is_file ?e (path ?p)" "use_pygame ?p" "pygame ?p \<noteq> None" "backend ?p = Some ''pygame''"
    by (simp_all add: init_pygame_mpg123_host play_mixer_only_broken_def)
  have r: "attempt_raises ?e ?p ''pygame''" "\<not> attempt_raises ?e ?p ''mpg123''"
    "attempt_raises ?e ?p ''playsound-thread''"
    by (simp_all add: attempt_raises_def play_mixer_only_broken_def cli_players_def openers_def)
  have own: "own_candidates ?p = [''pygame'', ''playsound-thread'']"
    using p(4) by (simp add: own_candidates_def)
  show ?thesis
    using play_own_pygame[OF p, of fresh] r
    by (simp add: own spec_candidates_pygame_mpg123)
qed

theorem play_tries_own_backend_then_playsound_witness:
  "is_file play_mixer_broken ''song.mp3'' \<and>
   own_candidates (AudioPlayer_init pygame_mpg123_host ''song.mp3'' False) =
     [''pygame'', ''playsound-thread''] \<and>
   attempts_of (trace (snd (play play_mixer_broken
     (on_player (AudioPlayer_init pygame_mpg123_host ''song.mp3'' False) fresh)))) =
     [''pygame'', ''playsound-thread''] \<and>
   fst (play play_mixer_broken
     (on_player (AudioPlayer_init pygame_mpg123_host ''song.mp3'' False) fresh)) = Inr True"
proof -
  let ?p = "AudioPlayer_init pygame_mpg123_host ''song.mp3'' False"
  let ?e = "play_mixer_broken"
  have h: "is_file ?e ''song.mp3''" by (simp add: play_mixer_broken_def)
  have r: "attempt_raises ?e ?p ''pygame''" "\<not> attempt_raises ?e ?p ''playsound-thread''"
    by (simp_all add: attempt_raises_def play_mixer_broken_def cli_players_def openers_def)
  show ?thesis
    using play_tries_own_backend_then_playsound[OF h, of pygame_mpg123_host False fresh] h r
    by (simp add: spec_candidates_pygame_mpg123)
qed

text \<open>
  Claim C8 as it is worded fails: a player constructed with the pygame backend whose
  mixer raises in \<^verbatim>\<open>play()\<close> ends with the backend \<^verbatim>\<open>playsound-thread\<close>.
\<close>

theorem backend_changes_counterexample:
  "backend (AudioPlayer_init pygame_host ''song.mp3'' False) = Some ''pygame'' \<and>
   backend (self (snd (play play_mixer_broken
      (on_player (AudioPlayer_init pygame_host ''song.mp3'' False) fresh)))) =
     Some ''playsound-thread''"
  by (simp add: play_pygame_broken) (simp add: init_pygame_host)

text \<open>
  Claim C8, amended. \<^verbatim>\<open>stop()\<close> never changes \<^verbatim>\<open>backend\<close>. \<^verbatim>\<open>play()\<close> sets it
  in exactly one case: when it gets as far as the playsound block and neither the
  import nor the start of the thread raises. Then \<^verbatim>\<open>play()\<close> returns \<open>True\<close> and the
  backend is \<^verbatim>\<open>playsound-thread\<close>; in every other case \<^verbatim>\<open>play()\<close> leaves the backend
  as it was.
\<close>

theorem backend_changes_only_to_playsound:
  "backend (self (snd (stop se w))) = backend (self w) \<and>
   backend (self (snd (play e w))) =
     (if falls_to_playsound e (self w) \<and> \<not> import_playsound_raises e \<and>
         \<not> thread_start_raises e
      then Some ''playsound-thread'' else backend (self w)) \<and>
   (falls_to_playsound e (self w) \<and> \<not> import_playsound_raises e \<and>
    \<not> thread_start_raises e \<longrightarrow> fst (play e w) = Inr True)"
proof -
  have c1: "(case backend (self w) of None \<Rightarrow> False
         | Some b \<Rightarrow> b \<in> set cli_players \<and>
             \<not> popen_raises e (cli_args b (loop (self w)) (path (self w)))) =
       (\<exists>b. backend (self w) = Some b \<and> b \<in> set cli_players \<and>
                \<not> popen_raises e (cli_args b (loop (self w)) (path (self w))))"
    by (cases "backend (self w)") auto
  have c2: "(case backend (self w) of None \<Rightarrow> False
         | Some b \<Rightarrow> b \<in> set openers \<and>
             \<not> (if b = ''start'' then popen_shell_raises e (start_command (path (self w)))
                 else popen_raises e [b, path (self w)])) =
       (\<exists>b. backend (self w) = Some b \<and> b \<in> set openers \<and>
                \<not> (if b = ''start'' then popen_shell_raises e (start_command (path (self w)))
                    else popen_raises e [b, path (self w)]))"
    by (cases "backend (self w)") auto
  have s: "backend (self (snd (stop se w))) = backend (self w)"
    using stop_frame[of se w] by simp
  show ?thesis
    unfolding falls_to_playsound_def c1 c2
    using s play_backend[of e w] by auto
qed

theorem backend_changes_only_to_playsound_witness:
  "falls_to_playsound play_mixer_broken
     (self (on_player (AudioPlayer_init pygame_host ''song.mp3'' False) fresh)) \<and>
   \<not> import_playsound_raises play_mixer_broken \<and> \<not> thread_start_raises play_mixer_broken \<and>
   backend (self (on_player (AudioPlayer_init pygame_host ''song.mp3'' False) fresh)) =
     Some ''pygame'' \<and>
   backend (self (snd (play play_mixer_broken
      (on_player (AudioPlayer_init pygame_host ''song.mp3'' False) fresh)))) =
     Some ''playsound-thread'' \<and>
   fst (play play_mixer_broken
      (on_player (AudioPlayer_init pygame_host ''song.mp3'' False) fresh)) = Inr True \<and>
   \<not> falls_to_playsound play_fine
     (self (on_player (AudioPlayer_init mpv_host ''song.mp3'' False) fresh)) \<and>
   backend (self (snd (play play_fine
      (on_player (AudioPlayer_init mpv_host ''song.mp3'' False) fresh)))) = Some ''mpv'' \<and>
   backend (self (snd (stop stop_fine
      (on_player (AudioPlayer_init mpv_host ''song.mp3'' False) fresh)))) = Some ''mpv''"
proof -
  let ?v = "on_player (AudioPlayer_init pygame_host ''song.mp3'' False) fresh"
  let ?w = "on_player (AudioPlayer_init mpv_host ''song.mp3'' False) fresh"
  have v: "self ?v = \<lparr>path = ''song.mp3'', loop = False, backend = Some ''pygame'', proc = None,
      thread = None, use_pygame = True, pygame = Some PygameModule\<rparr>"
    by (simp add: on_player_def init_pygame_host)
  have w: "self ?w = \<lparr>path = ''song.mp3'', loop = False, backend = Some ''mpv'', proc = None,
      thread = None, use_pygame = False, pygame = None\<rparr>"
    by (simp add: on_player_def init_mpv_host)
  have f: "falls_to_playsound play_mixer_broken (self ?v)"
    "\<not> import_playsound_raises play_mixer_broken" "\<not> thread_start_raises play_mixer_broken"
    unfolding v by (simp_all add: falls_to_playsound_def play_mixer_broken_def cli_players_def
        openers_def)
  have n: "\<not> falls_to_playsound play_fine (self ?w)"
    unfolding w by (simp add: falls_to_playsound_def play_fine_def cli_players_def)
  have b: "backend (self ?v) = Some ''pygame''" "backend (self ?w) = Some ''mpv''"
    unfolding v w by simp_all
  show ?thesis
    using backend_changes_only_to_playsound[of stop_fine ?v play_mixer_broken]
      backend_changes_only_to_playsound[of stop_fine ?w play_fine] f n b
    by simp
qed





end
